theory Spec2Isabelle
  imports Complex_Main "HOL-Library.Word"
begin

section \<open>The interaction-integral postprocessor (InteractionIntegral.C)\<close>

text \<open>
  A shallow embedding of the class \<open>InteractionIntegral\<close>: its constructor,
  \<open>initialSetup\<close>, \<open>getValue\<close>, \<open>computeQpIntegral\<close> and \<open>computeIntegral\<close>.

  Numbers. The source computes in \<open>Real\<close> (a C++ double). A finite double is idealised
  as an exact \<open>real\<close>: rounding and overflow are not modelled. What exact reals cannot
  express is the outcome of a division by zero, which in IEEE arithmetic is an infinity
  or a NaN and which every later addition and multiplication preserves; that outcome
  is the value \<open>NonFinite\<close> of the type \<open>RealVal\<close>. All inputs (fields, material
  properties, parameters) are finite. An \<open>unsigned int\<close> is a 32-bit word.
\<close>

subsection \<open>Numbers, vectors and matrices\<close>

type_synonym uint = "32 word"

datatype RealVal = Finite real | NonFinite

definition real_div :: "real \<Rightarrow> real \<Rightarrow> RealVal" where
  \<comment> \<open>\<open>a / b\<close> on doubles: a zero divisor gives an infinity or a NaN, never a trap\<close>
  "real_div a b = (if b = 0 then NonFinite else Finite (a / b))"

fun rv_add :: "RealVal \<Rightarrow> RealVal \<Rightarrow> RealVal" where
  "rv_add (Finite a) (Finite b) = Finite (a + b)"
| "rv_add _ _ = NonFinite"

fun rv_mult :: "real \<Rightarrow> RealVal \<Rightarrow> RealVal" where
  "rv_mult c (Finite a) = Finite (c * a)"
| "rv_mult c NonFinite = NonFinite"

text \<open>
  \<open>RealVectorValue\<close> has the components 0, 1, 2; \<open>ColumnMajorMatrix\<close> is 3 by 3 and
  its default constructor fills it with zeros. Both are read and written by index.
\<close>

type_synonym RealVectorValue = "nat \<Rightarrow> real"
type_synonym ColumnMajorMatrix = "nat \<Rightarrow> nat \<Rightarrow> real"

definition cmm_zero :: ColumnMajorMatrix where
  "cmm_zero = (\<lambda>i j. 0)"

definition cmm_set :: "ColumnMajorMatrix \<Rightarrow> nat \<Rightarrow> nat \<Rightarrow> real \<Rightarrow> ColumnMajorMatrix" where
  \<comment> \<open>the assignment \<open>m(i, j) = v\<close>\<close>
  "cmm_set m i j v = m(i := (m i)(j := v))"

definition cmm_mult :: "ColumnMajorMatrix \<Rightarrow> ColumnMajorMatrix \<Rightarrow> ColumnMajorMatrix" where
  \<comment> \<open>Modelled from the spec: the class ColumnMajorMatrix is not part of the sources at hand;
      \<open>operator*\<close> is the product of two dense 3 by 3 matrices (the spec's \<open>dq \<cdot> stress\<close>).\<close>
  "cmm_mult A B =
     (\<lambda>i j. if i < 3 \<and> j < 3 then sum_list (map (\<lambda>k. A i k * B k j) [0..<3]) else 0)"

definition doubleContraction :: "ColumnMajorMatrix \<Rightarrow> ColumnMajorMatrix \<Rightarrow> real" where
  \<comment> \<open>Modelled from the spec: the class ColumnMajorMatrix is not part of the sources at hand;
      the double contraction \<open>A : B\<close> is the sum of the products of corresponding entries.\<close>
  "doubleContraction A B =
     sum_list (map (\<lambda>i. sum_list (map (\<lambda>j. A i j * B i j) [0..<3])) [0..<3])"

record SymmTensor =
  xx :: real
  yy :: real
  zz :: real
  xy :: real
  yz :: real
  xz :: real

subsection \<open>The collaborators: crack-front definition, current element, parameters\<close>

type_synonym Node = nat

text \<open>
  The class CrackFrontDefinition is not part of the sources at hand. The postprocessor
  only calls it, so every member function it calls is a field of this record and
  every theorem holds for whatever these functions compute.
\<close>

record CrackFrontDefinition =
  rotateToCrackFrontCoords_vec :: "RealVectorValue \<Rightarrow> uint \<Rightarrow> RealVectorValue"
  rotateToCrackFrontCoords_mat :: "ColumnMajorMatrix \<Rightarrow> uint \<Rightarrow> ColumnMajorMatrix"
  treatAs2D :: bool
  getCrackFrontForwardSegmentLength :: "uint \<Rightarrow> real"
  getCrackFrontBackwardSegmentLength :: "uint \<Rightarrow> real"
  getCrackFrontTangentialStrain :: "uint \<Rightarrow> real"
  DomainIntegralQFunction :: "uint \<Rightarrow> uint \<Rightarrow> Node \<Rightarrow> real"
  DomainIntegralTopologicalQFunction :: "uint \<Rightarrow> uint \<Rightarrow> Node \<Rightarrow> real"

text \<open>
  What the framework holds while one element is current: the element
  (\<open>_current_elem\<close>), the quadrature rule (\<open>_qrule\<close>, \<open>_JxW\<close>, \<open>_coord\<close>), the
  first-order Lagrange shape functions built in \<open>computeIntegral\<close> (\<open>phi i qp\<close> is
  \<open>phi_curr_elem[i][qp]\<close>), and the coupled gradients and material properties, each
  indexed by the quadrature point.
\<close>

record CurrentElem =
  elem_nodes :: "Node list"
  elem_dim :: nat
  n_points :: nat
  JxW :: "nat \<Rightarrow> real"
  coord :: "nat \<Rightarrow> real"
  phi :: "nat \<Rightarrow> nat \<Rightarrow> real"
  dphi :: "nat \<Rightarrow> nat \<Rightarrow> RealVectorValue"
  stress_prop :: "nat \<Rightarrow> SymmTensor"
  elastic_strain_prop :: "nat \<Rightarrow> SymmTensor"
  coupledGradient_disp_x :: "nat \<Rightarrow> RealVectorValue"
  coupledGradient_disp_y :: "nat \<Rightarrow> RealVectorValue"
  coupledGradient_disp_z :: "nat \<Rightarrow> RealVectorValue"
  coupledGradient_temp :: "nat \<Rightarrow> RealVectorValue"
  aux_stress :: "nat \<Rightarrow> ColumnMajorMatrix"
  aux_grad_disp :: "nat \<Rightarrow> ColumnMajorMatrix"
  thermal_expansion_coef_prop :: "nat \<Rightarrow> real"

definition grad_zero :: "CurrentElem \<Rightarrow> nat \<Rightarrow> RealVectorValue" where
  "grad_zero ce qp = (\<lambda>j. 0)"

datatype MooseEnum = Geometry | Topology

text \<open>What the constructor reads from its parameters, the mesh and the materials.\<close>

record InputParameters =
  p_crack_front_definition :: CrackFrontDefinition
  p_crack_front_point_index :: "uint option"
  p_K_factor :: real
  p_symmetry_plane :: "uint option"
  p_t_stress :: bool
  p_poissons_ratio :: real
  p_ring_index :: uint
  p_ring_first :: uint
  p_q_function_type :: MooseEnum
  isCoupled_temp :: bool
  mesh_dimension :: nat
  hasMaterialProperty_thermal_expansion :: bool

subsection \<open>The object and its constructor\<close>

text \<open>
  The members of the class, without the leading underscore. A member that is a reference
  or pointer chosen in the constructor (\<open>_grad_disp_z\<close>, \<open>_grad_temp\<close>,
  \<open>_current_instantaneous_thermal_expansion_coef\<close>) is the accessor it was bound
  to; the NULL pointer is \<open>None\<close>. The members bound without a choice (\<open>_stress\<close>,
  \<open>_strain\<close>, \<open>_grad_disp_x\<close>, \<open>_grad_disp_y\<close>, \<open>_aux_stress\<close>,
  \<open>_aux_grad_disp\<close>) are read from the current element directly.
\<close>

record InteractionIntegral =
  crack_front_definition :: CrackFrontDefinition
  has_crack_front_point_index :: bool
  crack_front_point_index :: uint
  treat_as_2d :: bool
  grad_disp_z :: "CurrentElem \<Rightarrow> nat \<Rightarrow> RealVectorValue"
  has_temp :: bool
  grad_temp :: "CurrentElem \<Rightarrow> nat \<Rightarrow> RealVectorValue"
  current_instantaneous_thermal_expansion_coef :: "(CurrentElem \<Rightarrow> nat \<Rightarrow> real) option"
  K_factor :: real
  has_symmetry_plane :: bool
  t_stress :: bool
  poissons_ratio :: real
  ring_index :: uint
  q_function_type :: MooseEnum
  ring_first :: "uint option"

datatype error =
    MooseError string
  | NullDereference

definition thermal_property_message :: string where
  "thermal_property_message =
     ''To include thermal strain term in interaction integral, must both couple '' @
     ''temperature in DomainIntegral block and compute thermal expansion property in '' @
     ''material model using compute_InteractionIntegral = true.''"

definition InteractionIntegral_constructor :: "InputParameters \<Rightarrow> error + InteractionIntegral" where
  \<comment> \<open>the constructor \<open>InteractionIntegral::InteractionIntegral\<close>\<close>
  "InteractionIntegral_constructor parameters =
     (let obj = \<lparr>
            crack_front_definition = p_crack_front_definition parameters,
            has_crack_front_point_index = (p_crack_front_point_index parameters \<noteq> None),
            crack_front_point_index =
              (case p_crack_front_point_index parameters of Some i \<Rightarrow> i | None \<Rightarrow> 0),
            treat_as_2d = False,
            grad_disp_z =
              (if mesh_dimension parameters = 3 then coupledGradient_disp_z else grad_zero),
            has_temp = isCoupled_temp parameters,
            grad_temp =
              (if isCoupled_temp parameters then coupledGradient_temp else grad_zero),
            current_instantaneous_thermal_expansion_coef =
              (if hasMaterialProperty_thermal_expansion parameters
               then Some thermal_expansion_coef_prop else None),
            K_factor = p_K_factor parameters,
            has_symmetry_plane = (p_symmetry_plane parameters \<noteq> None),
            t_stress = p_t_stress parameters,
            poissons_ratio = p_poissons_ratio parameters,
            ring_index = p_ring_index parameters,
            q_function_type = p_q_function_type parameters,
            ring_first = None \<rparr>
      in if has_temp obj \<and> current_instantaneous_thermal_expansion_coef obj = None
         then Inl (MooseError thermal_property_message)
         else if q_function_type obj = Topology
         then Inr (obj\<lparr>ring_first := Some (p_ring_first parameters)\<rparr>)
         else Inr obj)"

definition initialSetup :: "InteractionIntegral \<Rightarrow> InteractionIntegral" where
  "initialSetup obj = obj\<lparr>treat_as_2d := treatAs2D (crack_front_definition obj)\<rparr>"

subsection \<open>computeQpIntegral\<close>

definition interpolate_q :: "CurrentElem \<Rightarrow> real list \<Rightarrow> nat \<Rightarrow> real \<times> RealVectorValue" where
  \<comment> \<open>the loop over the nodes: \<open>scalar_q\<close> and \<open>grad_q\<close> at the quadrature point. The vector
      \<open>_q_curr_elem\<close> has one entry per node, pushed by \<open>computeIntegral\<close>.\<close>
  "interpolate_q ce q_curr_elem qp =
     fold (\<lambda>i (scalar_q, grad_q).
             (scalar_q + phi ce i qp * q_curr_elem ! i,
              fold (\<lambda>j g. g(j := g j + dphi ce i qp j * q_curr_elem ! i))
                   [0..<elem_dim ce] grad_q))
          [0..<length (elem_nodes ce)] (0, (\<lambda>j. 0))"

definition aux_du_of :: "ColumnMajorMatrix \<Rightarrow> ColumnMajorMatrix" where
  \<comment> \<open>\<open>aux_du\<close>: row 0 of the auxiliary displacement gradient, the other rows stay zero\<close>
  "aux_du_of agd =
     cmm_set (cmm_set (cmm_set cmm_zero 0 0 (agd 0 0)) 0 1 (agd 0 1)) 0 2 (agd 0 2)"

definition symm_matrix :: "SymmTensor \<Rightarrow> ColumnMajorMatrix" where
  \<comment> \<open>the nine assignments that fill \<open>stress\<close> (and \<open>strain\<close>) from a SymmTensor\<close>
  "symm_matrix s =
     cmm_set (cmm_set (cmm_set
    (cmm_set (cmm_set (cmm_set
    (cmm_set (cmm_set (cmm_set cmm_zero
       0 0 (xx s)) 0 1 (xy s)) 0 2 (xz s))
       1 0 (xy s)) 1 1 (yy s)) 1 2 (yz s))
       2 0 (xz s)) 2 1 (yz s)) 2 2 (zz s)"

definition grad_disp_matrix ::
  "RealVectorValue \<Rightarrow> RealVectorValue \<Rightarrow> RealVectorValue \<Rightarrow> ColumnMajorMatrix" where
  \<comment> \<open>the nine assignments that fill \<open>grad_disp\<close>: row i is the gradient of component i\<close>
  "grad_disp_matrix gx gy gz =
     cmm_set (cmm_set (cmm_set
    (cmm_set (cmm_set (cmm_set
    (cmm_set (cmm_set (cmm_set cmm_zero
       0 0 (gx 0)) 0 1 (gx 1)) 0 2 (gx 2))
       1 0 (gy 0)) 1 1 (gy 1)) 1 2 (gy 2))
       2 0 (gz 0)) 2 1 (gz 1)) 2 2 (gz 2)"

definition dq_matrix :: "RealVectorValue \<Rightarrow> ColumnMajorMatrix" where
  \<comment> \<open>\<open>dq\<close>: in crack-front coordinates the crack direction is (1, 0, 0)\<close>
  "dq_matrix grad_q_cf =
     (let crack_direction = (\<lambda>j :: nat. 0 :: real)(0 := 1)
      in cmm_set (cmm_set (cmm_set cmm_zero
           0 0 (crack_direction 0 * grad_q_cf 0))
           0 1 (crack_direction 0 * grad_q_cf 1))
           0 2 (crack_direction 0 * grad_q_cf 2))"

record QpTerms =
  term1 :: real
  term2 :: real
  term3 :: real
  term4 :: real
  q_avg_seg :: real

definition computeQpTerms ::
  "InteractionIntegral \<Rightarrow> CurrentElem \<Rightarrow> real list \<Rightarrow> nat \<Rightarrow> error + QpTerms" where
  \<comment> \<open>the body of \<open>computeQpIntegral\<close> up to and including \<open>q_avg_seg\<close>: the local
      variables \<open>term1\<close> .. \<open>term4\<close> and \<open>q_avg_seg\<close>\<close>
  "computeQpTerms obj ce q_curr_elem qp =
     (let (scalar_q, grad_q) = interpolate_q ce q_curr_elem qp;
          aux_du = aux_du_of (aux_grad_disp ce qp);
          stress = symm_matrix (stress_prop ce qp);
          strain = symm_matrix (elastic_strain_prop ce qp);
          grad_disp = grad_disp_matrix (coupledGradient_disp_x ce qp)
                        (coupledGradient_disp_y ce qp) (grad_disp_z obj ce qp);
          cfd = crack_front_definition obj;
          idx = crack_front_point_index obj;
          grad_q_cf = rotateToCrackFrontCoords_vec cfd grad_q idx;
          grad_disp_cf = rotateToCrackFrontCoords_mat cfd grad_disp idx;
          stress_cf = rotateToCrackFrontCoords_mat cfd stress idx;
          strain_cf = rotateToCrackFrontCoords_mat cfd strain idx;
          grad_temp_cf = rotateToCrackFrontCoords_vec cfd (grad_temp obj ce qp) idx;
          dq = dq_matrix grad_q_cf;
          tmp1 = cmm_mult dq stress_cf;
          t1 = doubleContraction aux_du tmp1;
          tmp2 = cmm_mult dq (aux_stress ce qp);
          t2 = grad_disp_cf 0 0 * tmp2 0 0 + grad_disp_cf 1 0 * tmp2 0 1 +
               grad_disp_cf 2 0 * tmp2 0 2;
          t3 = dq 0 0 * doubleContraction (aux_stress ce qp) strain_cf;
          t4 = (if has_temp obj
                then (case current_instantaneous_thermal_expansion_coef obj of
                        None \<Rightarrow> Inl NullDereference
                      | Some coef \<Rightarrow>
                          (let aux_stress_trace = aux_stress ce qp 0 0 + aux_stress ce qp 1 1 +
                                                  aux_stress ce qp 2 2
                           in Inr (scalar_q * aux_stress_trace * coef ce qp * grad_temp_cf 0)))
                else Inr 0);
          avg = (if \<not> treatAs2D cfd
                 then (getCrackFrontForwardSegmentLength cfd idx +
                       getCrackFrontBackwardSegmentLength cfd idx) / 2
                 else 1)
      in case t4 of
           Inl e \<Rightarrow> Inl e
         | Inr t4v \<Rightarrow>
             Inr \<lparr>term1 = t1, term2 = t2, term3 = t3, term4 = t4v, q_avg_seg = avg\<rparr>)"

definition computeQpIntegral ::
  "InteractionIntegral \<Rightarrow> CurrentElem \<Rightarrow> real list \<Rightarrow> nat \<Rightarrow> error + RealVal" where
  "computeQpIntegral obj ce q_curr_elem qp =
     (case computeQpTerms obj ce q_curr_elem qp of
        Inl e \<Rightarrow> Inl e
      | Inr t \<Rightarrow>
          (let eq = term1 t + term2 t - term3 t + term4 t;
               eq = (if has_symmetry_plane obj then eq * 2 else eq)
           in Inr (real_div eq (q_avg_seg t))))"

subsection \<open>computeIntegral\<close>

definition compute_q_curr_elem :: "InteractionIntegral \<Rightarrow> CurrentElem \<Rightarrow> real list" where
  \<comment> \<open>the loop that fills \<open>_q_curr_elem\<close>: q at every node of the element. The enumeration
      has the two values Geometry and Topology only.\<close>
  "compute_q_curr_elem obj ce =
     (let ring_base = (if q_function_type obj = Topology then 0 else 1 :: uint)
      in map (\<lambda>this_node.
                case q_function_type obj of
                  Geometry \<Rightarrow>
                    DomainIntegralQFunction (crack_front_definition obj)
                      (crack_front_point_index obj) (ring_index obj - ring_base) this_node
                | Topology \<Rightarrow>
                    DomainIntegralTopologicalQFunction (crack_front_definition obj)
                      (crack_front_point_index obj) (ring_index obj - ring_base) this_node)
             (elem_nodes ce))"

fun quadrature_loop ::
  "InteractionIntegral \<Rightarrow> CurrentElem \<Rightarrow> real list \<Rightarrow> nat list \<Rightarrow> RealVal \<Rightarrow> error + RealVal" where
  \<comment> \<open>\<open>sum += _JxW[_qp] * _coord[_qp] * computeQpIntegral()\<close> for each quadrature point;
      \<open>sum_qp\<close> is the local variable \<open>sum\<close>\<close>
  "quadrature_loop obj ce q [] sum_qp = Inr sum_qp"
| "quadrature_loop obj ce q (qp # qps) sum_qp =
     (case computeQpIntegral obj ce q qp of
        Inl e \<Rightarrow> Inl e
      | Inr v \<Rightarrow> quadrature_loop obj ce q qps (rv_add sum_qp (rv_mult (JxW ce qp * coord ce qp) v)))"

definition computeIntegral :: "InteractionIntegral \<Rightarrow> CurrentElem \<Rightarrow> error + RealVal" where
  "computeIntegral obj ce =
     quadrature_loop obj ce (compute_q_curr_elem obj ce) [0..<n_points ce] (Finite 0)"

subsection \<open>Accumulation and getValue\<close>

fun execute_elems ::
  "InteractionIntegral \<Rightarrow> CurrentElem list \<Rightarrow> RealVal \<Rightarrow> error + RealVal" where
  \<comment> \<open>Modelled from the spec: \<open>execute\<close> of the base class ElementIntegralPostprocessor is
      not part of the sources at hand; for every element of the process it adds the
      element's contribution to the running total \<open>_integral_value\<close>.\<close>
  "execute_elems obj [] integral_value = Inr integral_value"
| "execute_elems obj (ce # ces) integral_value =
     (case computeIntegral obj ce of
        Inl e \<Rightarrow> Inl e
      | Inr v \<Rightarrow> execute_elems obj ces (rv_add integral_value v))"

fun execute_all ::
  "InteractionIntegral \<Rightarrow> CurrentElem list list \<Rightarrow> error + RealVal list" where
  \<comment> \<open>Modelled from the spec: every process resets its total to zero (\<open>initialize\<close>) and
      runs over its own elements; the result is the list of the per-process totals.\<close>
  "execute_all obj [] = Inr []"
| "execute_all obj (ces # rest) =
     (case execute_elems obj ces (Finite 0) of
        Inl e \<Rightarrow> Inl e
      | Inr v \<Rightarrow> (case execute_all obj rest of Inl e \<Rightarrow> Inl e | Inr vs \<Rightarrow> Inr (v # vs)))"

fun gatherSum :: "RealVal list \<Rightarrow> RealVal" where
  \<comment> \<open>Modelled from the spec: \<open>gatherSum\<close> of the framework is not part of the sources at
      hand; it replaces the total by the sum of the totals of all processes.\<close>
  "gatherSum [] = Finite 0"
| "gatherSum (v # vs) = rv_add v (gatherSum vs)"

definition getValue :: "InteractionIntegral \<Rightarrow> RealVal list \<Rightarrow> RealVal" where
  \<comment> \<open>the argument lists \<open>_integral_value\<close> on every process\<close>
  "getValue obj integral_values =
     (let integral_value = gatherSum integral_values;
          integral_value =
            (if t_stress obj \<and> \<not> treat_as_2d obj
             then rv_add integral_value
                    (Finite (poissons_ratio obj *
                       getCrackFrontTangentialStrain (crack_front_definition obj)
                         (crack_front_point_index obj)))
             else integral_value)
      in rv_mult (K_factor obj) integral_value)"

definition evaluate :: "InputParameters \<Rightarrow> CurrentElem list list \<Rightarrow> error + RealVal" where
  \<comment> \<open>Modelled from the spec: the life cycle the framework drives is not part of the
      sources at hand: construction, \<open>initialSetup\<close>, the element loop of every process,
      then \<open>getValue\<close>. An error ends the evaluation where it occurs.\<close>
  "evaluate parameters partitions =
     (case InteractionIntegral_constructor parameters of
        Inl e \<Rightarrow> Inl e
      | Inr obj0 \<Rightarrow>
          (let obj = initialSetup obj0
           in case execute_all obj partitions of
                Inl e \<Rightarrow> Inl e
              | Inr vs \<Rightarrow> Inr (getValue obj vs)))"

subsection \<open>The quantities the properties are stated with\<close>

text \<open>
  Names for local variables of \<open>computeQpIntegral\<close>: the interpolated \<open>scalar_q\<close>, and
  the vectors and matrices after the rotation to crack-front coordinates.
\<close>

definition scalar_q_at :: "CurrentElem \<Rightarrow> real list \<Rightarrow> nat \<Rightarrow> real" where
  "scalar_q_at ce q_curr_elem qp = fst (interpolate_q ce q_curr_elem qp)"

definition grad_q_cf :: "InteractionIntegral \<Rightarrow> CurrentElem \<Rightarrow> real list \<Rightarrow> nat \<Rightarrow> RealVectorValue" where
  "grad_q_cf obj ce q_curr_elem qp =
     rotateToCrackFrontCoords_vec (crack_front_definition obj)
       (snd (interpolate_q ce q_curr_elem qp)) (crack_front_point_index obj)"

definition grad_disp_cf :: "InteractionIntegral \<Rightarrow> CurrentElem \<Rightarrow> nat \<Rightarrow> ColumnMajorMatrix" where
  "grad_disp_cf obj ce qp =
     rotateToCrackFrontCoords_mat (crack_front_definition obj)
       (grad_disp_matrix (coupledGradient_disp_x ce qp) (coupledGradient_disp_y ce qp)
          (grad_disp_z obj ce qp))
       (crack_front_point_index obj)"

definition stress_cf :: "InteractionIntegral \<Rightarrow> CurrentElem \<Rightarrow> nat \<Rightarrow> ColumnMajorMatrix" where
  "stress_cf obj ce qp =
     rotateToCrackFrontCoords_mat (crack_front_definition obj)
       (symm_matrix (stress_prop ce qp)) (crack_front_point_index obj)"

definition strain_cf :: "InteractionIntegral \<Rightarrow> CurrentElem \<Rightarrow> nat \<Rightarrow> ColumnMajorMatrix" where
  "strain_cf obj ce qp =
     rotateToCrackFrontCoords_mat (crack_front_definition obj)
       (symm_matrix (elastic_strain_prop ce qp)) (crack_front_point_index obj)"

definition grad_temp_cf :: "InteractionIntegral \<Rightarrow> CurrentElem \<Rightarrow> nat \<Rightarrow> RealVectorValue" where
  "grad_temp_cf obj ce qp =
     rotateToCrackFrontCoords_vec (crack_front_definition obj)
       (grad_temp obj ce qp) (crack_front_point_index obj)"

definition trace3 :: "ColumnMajorMatrix \<Rightarrow> real" where
  "trace3 A = A 0 0 + A 1 1 + A 2 2"

text \<open>
  The specification's words: \<open>dq\<close> is the rank-2 tensor whose row 0 is the q-gradient
  and whose other rows are zero; the normalization divisor is 1 for a front treated
  as 2D and the average of the forward and backward segment lengths otherwise.
\<close>

definition dq_tensor :: "RealVectorValue \<Rightarrow> ColumnMajorMatrix" where
  "dq_tensor g = (\<lambda>i j. if i = 0 \<and> j < 3 then g j else 0)"

definition normalization_divisor :: "CrackFrontDefinition \<Rightarrow> uint \<Rightarrow> real" where
  "normalization_divisor cfd idx =
     (if treatAs2D cfd then 1
      else (getCrackFrontForwardSegmentLength cfd idx +
            getCrackFrontBackwardSegmentLength cfd idx) / 2)"

text \<open>
  The specification's tensor assembler and weight-field builder, written out by
  component, to compare the code's assembly with: the dense form of a symmetric
  tensor (off-diagonal components mirrored), the displacement-gradient matrix whose
  row \<open>i\<close> is the gradient of component \<open>i\<close>, the auxiliary matrix that keeps row 0
  only, and the first-order interpolation of the nodal weights and of their gradient
  (components at or above the element's dimension stay zero).
\<close>

definition dense_symmetric :: "SymmTensor \<Rightarrow> ColumnMajorMatrix" where
  "dense_symmetric s =
     (\<lambda>i j. if i = 0 \<and> j = 0 then xx s
            else if i = 1 \<and> j = 1 then yy s
            else if i = 2 \<and> j = 2 then zz s
            else if (i = 0 \<and> j = 1) \<or> (i = 1 \<and> j = 0) then xy s
            else if (i = 1 \<and> j = 2) \<or> (i = 2 \<and> j = 1) then yz s
            else if (i = 0 \<and> j = 2) \<or> (i = 2 \<and> j = 0) then xz s
            else 0)"

definition displacement_gradient ::
  "RealVectorValue \<Rightarrow> RealVectorValue \<Rightarrow> RealVectorValue \<Rightarrow> ColumnMajorMatrix" where
  "displacement_gradient gx gy gz =
     (\<lambda>i j. if 3 \<le> j then 0
            else if i = 0 then gx j
            else if i = 1 then gy j
            else if i = 2 then gz j
            else 0)"

definition first_row :: "ColumnMajorMatrix \<Rightarrow> ColumnMajorMatrix" where
  "first_row A = (\<lambda>i j. if i = 0 \<and> j < 3 then A 0 j else 0)"

definition interpolated_q :: "CurrentElem \<Rightarrow> real list \<Rightarrow> nat \<Rightarrow> real" where
  "interpolated_q ce q_nodes qp =
     sum_list (map (\<lambda>i. phi ce i qp * q_nodes ! i) [0..<length (elem_nodes ce)])"

definition interpolated_grad_q :: "CurrentElem \<Rightarrow> real list \<Rightarrow> nat \<Rightarrow> RealVectorValue" where
  "interpolated_grad_q ce q_nodes qp =
     (\<lambda>j. if j < elem_dim ce
          then sum_list (map (\<lambda>i. dphi ce i qp j * q_nodes ! i) [0..<length (elem_nodes ce)])
          else 0)"

definition PointwiseIntegrandEvaluator ::
  "RealVectorValue \<Rightarrow> ColumnMajorMatrix \<Rightarrow> ColumnMajorMatrix \<Rightarrow> ColumnMajorMatrix \<Rightarrow>
   RealVectorValue \<Rightarrow> ColumnMajorMatrix \<Rightarrow> ColumnMajorMatrix \<Rightarrow> real \<Rightarrow> real \<Rightarrow>
   bool \<Rightarrow> bool \<Rightarrow> real \<Rightarrow> RealVal" where
  \<comment> \<open>the specification's pointwise integrand evaluator (its section 4.4, steps 1 to 7),
      a function of inputs that are already in the local crack-front frame\<close>
  "PointwiseIntegrandEvaluator grad_q grad_disp stress strain grad_temp_v aux_stress_m aux_du
       q alpha has_temperature has_symmetry divisor =
     (let dq = dq_tensor grad_q;
          t1 = doubleContraction aux_du (cmm_mult dq stress);
          t2 = sum_list (map (\<lambda>i. grad_disp i 0 * cmm_mult dq aux_stress_m 0 i) [0..<3]);
          t3 = grad_q 0 * doubleContraction aux_stress_m strain;
          t4 = (if has_temperature then q * trace3 aux_stress_m * alpha * grad_temp_v 0 else 0);
          eq = t1 + t2 - t3 + t4;
          eq = (if has_symmetry then 2 * eq else eq)
      in real_div eq divisor)"

definition rotated_inputs_integrand ::
  "bool \<Rightarrow> InteractionIntegral \<Rightarrow> CurrentElem \<Rightarrow> real list \<Rightarrow> nat \<Rightarrow> RealVal" where
  \<comment> \<open>the specification's evaluator applied at a quadrature point: the q-gradient, the
      displacement gradient, the stress, the strain and the temperature gradient are
      rotated to the crack-front frame of the point; the auxiliary stress is rotated
      too when the flag is set and taken as the material supplies it otherwise\<close>
  "rotated_inputs_integrand rotate_aux_stress obj ce q_curr_elem qp =
     (let cfd = crack_front_definition obj;
          idx = crack_front_point_index obj;
          rot_v = (\<lambda>v. rotateToCrackFrontCoords_vec cfd v idx);
          rot_m = (\<lambda>m. rotateToCrackFrontCoords_mat cfd m idx)
      in PointwiseIntegrandEvaluator
           (rot_v (snd (interpolate_q ce q_curr_elem qp)))
           (rot_m (grad_disp_matrix (coupledGradient_disp_x ce qp)
                     (coupledGradient_disp_y ce qp) (grad_disp_z obj ce qp)))
           (rot_m (symm_matrix (stress_prop ce qp)))
           (rot_m (symm_matrix (elastic_strain_prop ce qp)))
           (rot_v (grad_temp obj ce qp))
           (if rotate_aux_stress then rot_m (aux_stress ce qp) else aux_stress ce qp)
           (aux_du_of (aux_grad_disp ce qp))
           (fst (interpolate_q ce q_curr_elem qp))
           (thermal_expansion_coef_prop ce qp)
           (has_temp obj)
           (has_symmetry_plane obj)
           (normalization_divisor cfd idx))"

subsection \<open>Concrete inputs\<close>

definition example_front :: CrackFrontDefinition where
  \<comment> \<open>a front whose local frame is the global one; the generators return the ring they get\<close>
  "example_front = \<lparr>
     rotateToCrackFrontCoords_vec = (\<lambda>v idx. v),
     rotateToCrackFrontCoords_mat = (\<lambda>m idx. m),
     treatAs2D = False,
     getCrackFrontForwardSegmentLength = (\<lambda>idx. 1),
     getCrackFrontBackwardSegmentLength = (\<lambda>idx. 3),
     getCrackFrontTangentialStrain = (\<lambda>idx. 1 / 2),
     DomainIntegralQFunction = (\<lambda>idx ring node. real (unat ring)),
     DomainIntegralTopologicalQFunction = (\<lambda>idx ring node. real (unat ring)) \<rparr>"

definition cyclic_front :: CrackFrontDefinition where
  \<comment> \<open>a front whose local axes are the global ones in the order y, z, x; q is 0 at node 0
      and 1 at node 1\<close>
  "cyclic_front = \<lparr>
     rotateToCrackFrontCoords_vec = (\<lambda>v idx. (\<lambda>i. v ((i + 1) mod 3))),
     rotateToCrackFrontCoords_mat = (\<lambda>m idx. (\<lambda>i j. m ((i + 1) mod 3) ((j + 1) mod 3))),
     treatAs2D = False,
     getCrackFrontForwardSegmentLength = (\<lambda>idx. 1),
     getCrackFrontBackwardSegmentLength = (\<lambda>idx. 1),
     getCrackFrontTangentialStrain = (\<lambda>idx. 0),
     DomainIntegralQFunction = (\<lambda>idx ring node. real node),
     DomainIntegralTopologicalQFunction = (\<lambda>idx ring node. real node) \<rparr>"

definition zero_tensor :: SymmTensor where
  "zero_tensor = \<lparr>xx = 0, yy = 0, zz = 0, xy = 0, yz = 0, xz = 0\<rparr>"

definition thermal_elem :: CurrentElem where
  \<comment> \<open>a two-node element with one quadrature point: no stress, no strain, no displacement,
      a temperature gradient 2 along x, an auxiliary stress of trace 5\<close>
  "thermal_elem = \<lparr>
     elem_nodes = [0, 1],
     elem_dim = 1,
     n_points = 1,
     JxW = (\<lambda>qp. 3 / 10),
     coord = (\<lambda>qp. 1),
     phi = (\<lambda>i qp. 1 / 2),
     dphi = (\<lambda>i qp j. if j = 0 then (if i = 0 then - 1 else 1) else 0),
     stress_prop = (\<lambda>qp. zero_tensor),
     elastic_strain_prop = (\<lambda>qp. zero_tensor),
     coupledGradient_disp_x = (\<lambda>qp j. 0),
     coupledGradient_disp_y = (\<lambda>qp j. 0),
     coupledGradient_disp_z = (\<lambda>qp j. 0),
     coupledGradient_temp = (\<lambda>qp j. if j = 0 then 2 else 0),
     aux_stress = (\<lambda>qp i j. if i = 0 \<and> j = 0 then 5 else 0),
     aux_grad_disp = (\<lambda>qp i j. 0),
     thermal_expansion_coef_prop = (\<lambda>qp. 1) \<rparr>"

definition strained_elem :: CurrentElem where
  \<comment> \<open>a two-node element with one quadrature point: q varies along y, the strain and the
      auxiliary stress have the single entry xx = 1\<close>
  "strained_elem = \<lparr>
     elem_nodes = [0, 1],
     elem_dim = 2,
     n_points = 1,
     JxW = (\<lambda>qp. 1),
     coord = (\<lambda>qp. 1),
     phi = (\<lambda>i qp. 1 / 2),
     dphi = (\<lambda>i qp j. if j = 1 then (if i = 0 then - 1 else 1) else 0),
     stress_prop = (\<lambda>qp. zero_tensor),
     elastic_strain_prop = (\<lambda>qp. zero_tensor\<lparr>xx := 1\<rparr>),
     coupledGradient_disp_x = (\<lambda>qp j. 0),
     coupledGradient_disp_y = (\<lambda>qp j. 0),
     coupledGradient_disp_z = (\<lambda>qp j. 0),
     coupledGradient_temp = (\<lambda>qp j. 0),
     aux_stress = (\<lambda>qp i j. if i = 0 \<and> j = 0 then 1 else 0),
     aux_grad_disp = (\<lambda>qp i j. 0),
     thermal_expansion_coef_prop = (\<lambda>qp. 0) \<rparr>"

definition zero_field_elem :: CurrentElem where
  \<comment> \<open>the thermal element with the auxiliary stress set to zero as well\<close>
  "zero_field_elem = thermal_elem\<lparr>aux_stress := (\<lambda>qp i j. 0)\<rparr>"

definition example_parameters :: InputParameters where
  "example_parameters = \<lparr>
     p_crack_front_definition = example_front,
     p_crack_front_point_index = Some 0,
     p_K_factor = 2,
     p_symmetry_plane = None,
     p_t_stress = False,
     p_poissons_ratio = 3 / 10,
     p_ring_index = 2,
     p_ring_first = 1,
     p_q_function_type = Geometry,
     isCoupled_temp = True,
     mesh_dimension = 2,
     hasMaterialProperty_thermal_expansion = True \<rparr>"

definition example_object :: InteractionIntegral where
  \<comment> \<open>what the constructor builds from \<open>example_parameters\<close>\<close>
  "example_object = \<lparr>
     crack_front_definition = example_front,
     has_crack_front_point_index = True,
     crack_front_point_index = 0,
     treat_as_2d = False,
     grad_disp_z = grad_zero,
     has_temp = True,
     grad_temp = coupledGradient_temp,
     current_instantaneous_thermal_expansion_coef = Some thermal_expansion_coef_prop,
     K_factor = 2,
     has_symmetry_plane = False,
     t_stress = False,
     poissons_ratio = 3 / 10,
     ring_index = 2,
     q_function_type = Geometry,
     ring_first = None \<rparr>"

definition cyclic_parameters :: InputParameters where
  \<comment> \<open>the rotated front, no temperature\<close>
  "cyclic_parameters = example_parameters\<lparr>
     p_crack_front_definition := cyclic_front,
     isCoupled_temp := False,
     hasMaterialProperty_thermal_expansion := False \<rparr>"

definition cyclic_object :: InteractionIntegral where
  \<comment> \<open>what the constructor builds from \<open>cyclic_parameters\<close>\<close>
  "cyclic_object = example_object\<lparr>
     crack_front_definition := cyclic_front,
     has_temp := False,
     grad_temp := grad_zero,
     current_instantaneous_thermal_expansion_coef := None \<rparr>"

definition degenerate_front :: CrackFrontDefinition where
  \<comment> \<open>a front not treated as 2D whose two segments at the point have length zero\<close>
  "degenerate_front = example_front\<lparr>
     getCrackFrontForwardSegmentLength := (\<lambda>idx. 0),
     getCrackFrontBackwardSegmentLength := (\<lambda>idx. 0) \<rparr>"

definition degenerate_parameters :: InputParameters where
  "degenerate_parameters = example_parameters\<lparr>p_crack_front_definition := degenerate_front\<rparr>"

definition degenerate_object :: InteractionIntegral where
  \<comment> \<open>what the constructor builds from \<open>degenerate_parameters\<close>\<close>
  "degenerate_object = example_object\<lparr>crack_front_definition := degenerate_front\<rparr>"

definition flat_parameters :: InputParameters where
  \<comment> \<open>the example with a front treated as 2D\<close>
  "flat_parameters =
     example_parameters\<lparr>p_crack_front_definition := example_front\<lparr>treatAs2D := True\<rparr>\<rparr>"

definition flat_object :: InteractionIntegral where
  \<comment> \<open>what the constructor builds from \<open>flat_parameters\<close>\<close>
  "flat_object = example_object\<lparr>crack_front_definition := example_front\<lparr>treatAs2D := True\<rparr>\<rparr>"

definition t_stress_parameters :: InputParameters where
  \<comment> \<open>the example with the T-stress requested\<close>
  "t_stress_parameters = example_parameters\<lparr>p_t_stress := True\<rparr>"

definition t_stress_object :: InteractionIntegral where
  \<comment> \<open>what the constructor builds from \<open>t_stress_parameters\<close>\<close>
  "t_stress_object = example_object\<lparr>t_stress := True\<rparr>"

definition curved_front :: CrackFrontDefinition where
  \<comment> \<open>the rotated front with the segment lengths 1 and 3\<close>
  "curved_front = cyclic_front\<lparr>getCrackFrontBackwardSegmentLength := (\<lambda>idx. 3)\<rparr>"

definition loaded_elem :: CurrentElem where
  \<comment> \<open>a triangle with one quadrature point where every field is non-zero; q is 0, 1, 2 at
      its nodes\<close>
  "loaded_elem = \<lparr>
     elem_nodes = [0, 1, 2],
     elem_dim = 2,
     n_points = 1,
     JxW = (\<lambda>qp. 1 / 2),
     coord = (\<lambda>qp. 1),
     phi = (\<lambda>i qp. if i = 0 then 1 / 2 else 1 / 4),
     dphi = (\<lambda>i qp j. if i = 0 then (if j < 2 then - 1 else 0)
                       else if i = 1 then (if j = 0 then 1 else 0)
                       else (if j = 1 then 1 else 0)),
     stress_prop = (\<lambda>qp. \<lparr>xx = 1, yy = 2, zz = 3, xy = 4, yz = 5, xz = 6\<rparr>),
     elastic_strain_prop = (\<lambda>qp. \<lparr>xx = 1, yy = 3, zz = 0, xy = 0, yz = 0, xz = 0\<rparr>),
     coupledGradient_disp_x = (\<lambda>qp j. if j = 0 then 1 else 0),
     coupledGradient_disp_y = (\<lambda>qp j. if j = 1 then 1 else 0),
     coupledGradient_disp_z = (\<lambda>qp j. 9),
     coupledGradient_temp = (\<lambda>qp j. if j = 1 then 3 else 0),
     aux_stress = (\<lambda>qp i j. if i = 0 \<and> j = 0 then 1
                            else if i = 1 \<and> j = 1 then 2
                            else if i + j = 1 then 1 else 0),
     aux_grad_disp = (\<lambda>qp i j. if i = 0 then (if j < 2 then 1 else 0) else 7),
     thermal_expansion_coef_prop = (\<lambda>qp. 1 / 2) \<rparr>"

definition loaded_parameters :: InputParameters where
  \<comment> \<open>the example at the curved front\<close>
  "loaded_parameters = example_parameters\<lparr>p_crack_front_definition := curved_front\<rparr>"

definition loaded_object :: InteractionIntegral where
  \<comment> \<open>what the constructor builds from \<open>loaded_parameters\<close>\<close>
  "loaded_object = example_object\<lparr>crack_front_definition := curved_front\<rparr>"

section \<open>Basic facts\<close>

lemma upt_3: "[0..<3] = [0, 1, 2 :: nat]"
  by (simp add: upt_rec)

lemma dq_matrix_eq_dq_tensor: "dq_matrix g = dq_tensor g"
proof (intro ext)
  fix i j :: nat
  consider "i \<noteq> 0" | "i = 0" "j = 0" | "i = 0" "j = 1" | "i = 0" "j = 2" | "i = 0" "3 \<le> j"
    by linarith
  then show "dq_matrix g i j = dq_tensor g i j"
    by cases (simp_all add: dq_matrix_def dq_tensor_def cmm_set_def cmm_zero_def)
qed

lemma constructor_thermal:
  assumes "InteractionIntegral_constructor parameters = Inr obj"
  shows "has_temp obj \<Longrightarrow>
           current_instantaneous_thermal_expansion_coef obj = Some thermal_expansion_coef_prop"
  using assms
  by (auto simp: InteractionIntegral_constructor_def Let_def split: if_splits)

lemma initialSetup_fields:
  "crack_front_definition (initialSetup obj) = crack_front_definition obj"
  "crack_front_point_index (initialSetup obj) = crack_front_point_index obj"
  "grad_disp_z (initialSetup obj) = grad_disp_z obj"
  "has_temp (initialSetup obj) = has_temp obj"
  "grad_temp (initialSetup obj) = grad_temp obj"
  "current_instantaneous_thermal_expansion_coef (initialSetup obj) =
     current_instantaneous_thermal_expansion_coef obj"
  "K_factor (initialSetup obj) = K_factor obj"
  "has_symmetry_plane (initialSetup obj) = has_symmetry_plane obj"
  "t_stress (initialSetup obj) = t_stress obj"
  "poissons_ratio (initialSetup obj) = poissons_ratio obj"
  "ring_index (initialSetup obj) = ring_index obj"
  "q_function_type (initialSetup obj) = q_function_type obj"
  "treat_as_2d (initialSetup obj) = treatAs2D (crack_front_definition obj)"
  by (simp_all add: initialSetup_def)

lemma setup_thermal:
  assumes "InteractionIntegral_constructor parameters = Inr obj0" and "obj = initialSetup obj0"
  shows "has_temp obj \<Longrightarrow>
           current_instantaneous_thermal_expansion_coef obj = Some thermal_expansion_coef_prop"
  using constructor_thermal [OF assms(1)] assms(2) by (simp add: initialSetup_fields)

text \<open>
  The local variables of \<open>computeQpIntegral\<close> in closed form, for an object whose thermal
  coefficient is there whenever the temperature is coupled.
\<close>

lemma computeQpTerms_value:
  assumes "has_temp obj \<Longrightarrow> current_instantaneous_thermal_expansion_coef obj = Some coef"
  shows "computeQpTerms obj ce q qp =
     Inr \<lparr>term1 = doubleContraction (aux_du_of (aux_grad_disp ce qp))
                     (cmm_mult (dq_tensor (grad_q_cf obj ce q qp)) (stress_cf obj ce qp)),
          term2 = grad_disp_cf obj ce qp 0 0 *
                    cmm_mult (dq_tensor (grad_q_cf obj ce q qp)) (aux_stress ce qp) 0 0 +
                  grad_disp_cf obj ce qp 1 0 *
                    cmm_mult (dq_tensor (grad_q_cf obj ce q qp)) (aux_stress ce qp) 0 1 +
                  grad_disp_cf obj ce qp 2 0 *
                    cmm_mult (dq_tensor (grad_q_cf obj ce q qp)) (aux_stress ce qp) 0 2,
          term3 = grad_q_cf obj ce q qp 0 *
                    doubleContraction (aux_stress ce qp) (strain_cf obj ce qp),
          term4 = (if has_temp obj
                   then scalar_q_at ce q qp * trace3 (aux_stress ce qp) * coef ce qp *
                        grad_temp_cf obj ce qp 0
                   else 0),
          q_avg_seg = normalization_divisor (crack_front_definition obj)
                        (crack_front_point_index obj)\<rparr>"
proof (cases "interpolate_q ce q qp")
  case (Pair sq gq)
  have dq00: "dq_tensor g 0 0 = g 0" for g
    by (simp add: dq_tensor_def)
  show ?thesis
  proof (cases "has_temp obj")
    case True
    with assms have "current_instantaneous_thermal_expansion_coef obj = Some coef"
      by simp
    with True Pair show ?thesis
      by (simp add: computeQpTerms_def Let_def dq_matrix_eq_dq_tensor dq00 grad_q_cf_def
          grad_disp_cf_def stress_cf_def strain_cf_def grad_temp_cf_def scalar_q_at_def
          trace3_def normalization_divisor_def)
  next
    case False
    with Pair show ?thesis
      by (simp add: computeQpTerms_def Let_def dq_matrix_eq_dq_tensor dq00 grad_q_cf_def
          grad_disp_cf_def stress_cf_def strain_cf_def grad_temp_cf_def scalar_q_at_def
          trace3_def normalization_divisor_def)
  qed
qed

lemma constructor_example: "InteractionIntegral_constructor example_parameters = Inr example_object"
  by (simp add: InteractionIntegral_constructor_def example_parameters_def example_object_def)

lemma interpolate_q_thermal_elem: "interpolate_q thermal_elem [1, 1] 0 = (1, (\<lambda>j. 0))"
  by (simp add: interpolate_q_def thermal_elem_def fun_eq_iff)

section \<open>More facts about the local variables and the concrete inputs\<close>

lemma computeQpTerms_fields:
  assumes "has_temp obj \<Longrightarrow> current_instantaneous_thermal_expansion_coef obj = Some coef"
  obtains t where "computeQpTerms obj ce q qp = Inr t"
    and "term1 t = doubleContraction (aux_du_of (aux_grad_disp ce qp))
                     (cmm_mult (dq_tensor (grad_q_cf obj ce q qp)) (stress_cf obj ce qp))"
    and "term2 t = grad_disp_cf obj ce qp 0 0 *
                     cmm_mult (dq_tensor (grad_q_cf obj ce q qp)) (aux_stress ce qp) 0 0 +
                   grad_disp_cf obj ce qp 1 0 *
                     cmm_mult (dq_tensor (grad_q_cf obj ce q qp)) (aux_stress ce qp) 0 1 +
                   grad_disp_cf obj ce qp 2 0 *
                     cmm_mult (dq_tensor (grad_q_cf obj ce q qp)) (aux_stress ce qp) 0 2"
    and "term3 t = grad_q_cf obj ce q qp 0 *
                     doubleContraction (aux_stress ce qp) (strain_cf obj ce qp)"
    and "term4 t = (if has_temp obj
                    then scalar_q_at ce q qp * trace3 (aux_stress ce qp) * coef ce qp *
                         grad_temp_cf obj ce qp 0
                    else 0)"
    and "q_avg_seg t = normalization_divisor (crack_front_definition obj)
                         (crack_front_point_index obj)"
proof -
  note terms = computeQpTerms_value [of obj coef ce q qp, OF assms]
  then obtain t where t: "computeQpTerms obj ce q qp = Inr t"
    by blast
  note eq = trans [OF t [symmetric] terms]
  show thesis
  proof (rule that [of t])
    show "computeQpTerms obj ce q qp = Inr t" by (rule t)
  qed (use eq in auto)
qed

lemma computeQpIntegral_of_terms:
  assumes "computeQpTerms obj ce q qp = Inr t"
  shows "computeQpIntegral obj ce q qp =
           Inr (real_div (if has_symmetry_plane obj
                          then 2 * (term1 t + term2 t - term3 t + term4 t)
                          else term1 t + term2 t - term3 t + term4 t)
                         (q_avg_seg t))"
proof -
  have doubling: "(if b then e * 2 else e) = (if b then 2 * e else e)" for b and e :: real
    by simp
  show ?thesis
    unfolding computeQpIntegral_def assms by (simp only: sum.case Let_def doubling)
qed

lemma constructor_cyclic: "InteractionIntegral_constructor cyclic_parameters = Inr cyclic_object"
  by (simp add: InteractionIntegral_constructor_def cyclic_parameters_def cyclic_object_def
      example_parameters_def example_object_def)

lemma constructor_degenerate:
  "InteractionIntegral_constructor degenerate_parameters = Inr degenerate_object"
  by (simp add: InteractionIntegral_constructor_def degenerate_parameters_def
      degenerate_object_def example_parameters_def example_object_def)

lemma constructor_flat: "InteractionIntegral_constructor flat_parameters = Inr flat_object"
  by (simp add: InteractionIntegral_constructor_def flat_parameters_def flat_object_def
      example_parameters_def example_object_def)

lemma constructor_t_stress:
  "InteractionIntegral_constructor t_stress_parameters = Inr t_stress_object"
  by (simp add: InteractionIntegral_constructor_def t_stress_parameters_def t_stress_object_def
      example_parameters_def example_object_def)

lemma interpolate_q_strained_elem:
  "interpolate_q strained_elem [0, 1] 0 = (1 / 2, (\<lambda>j. if j = 1 then 1 else 0))"
  by (simp add: interpolate_q_def strained_elem_def fun_eq_iff numeral_2_eq_2)

lemma compute_q_strained_elem:
  "compute_q_curr_elem (initialSetup cyclic_object) strained_elem = [0, 1]"
  by (simp add: compute_q_curr_elem_def initialSetup_def cyclic_object_def example_object_def
      cyclic_front_def strained_elem_def)

lemma computeQpTerms_strained_elem:
  "computeQpTerms (initialSetup cyclic_object) strained_elem [0, 1] 0 =
     Inr \<lparr>term1 = 0, term2 = 0, term3 = 0, term4 = 0, q_avg_seg = 1\<rparr>"
  unfolding computeQpTerms_def interpolate_q_strained_elem Let_def
  by (simp add: initialSetup_def cyclic_object_def example_object_def cyclic_front_def
      strained_elem_def zero_tensor_def doubleContraction_def cmm_mult_def upt_3
      dq_matrix_eq_dq_tensor dq_tensor_def aux_du_of_def symm_matrix_def cmm_set_def
      cmm_zero_def grad_disp_matrix_def grad_zero_def)

section \<open>The code's assembly against the specification's\<close>

text \<open>
  The matrices the code fills entry by entry are the specification's dense tensors,
  and the loop over the nodes computes the first-order interpolation of the nodal
  weights and of their gradient.
\<close>

lemma symm_matrix_dense: "symm_matrix s = dense_symmetric s"
proof (intro ext)
  fix i j :: nat
  have i: "i = 0 \<or> i = 1 \<or> i = 2 \<or> 3 \<le> i" and j: "j = 0 \<or> j = 1 \<or> j = 2 \<or> 3 \<le> j"
    by linarith+
  from i j show "symm_matrix s i j = dense_symmetric s i j"
    by (elim disjE)
      (simp_all add: symm_matrix_def dense_symmetric_def cmm_set_def cmm_zero_def)
qed

lemma grad_disp_matrix_rows: "grad_disp_matrix gx gy gz = displacement_gradient gx gy gz"
proof (intro ext)
  fix i j :: nat
  have i: "i = 0 \<or> i = 1 \<or> i = 2 \<or> 3 \<le> i" and j: "j = 0 \<or> j = 1 \<or> j = 2 \<or> 3 \<le> j"
    by linarith+
  from i j show "grad_disp_matrix gx gy gz i j = displacement_gradient gx gy gz i j"
    by (elim disjE)
      (simp_all add: grad_disp_matrix_def displacement_gradient_def cmm_set_def cmm_zero_def)
qed

lemma aux_du_of_first_row: "aux_du_of A = first_row A"
proof (intro ext)
  fix i j :: nat
  consider "i \<noteq> 0" | "i = 0" "j = 0" | "i = 0" "j = 1" | "i = 0" "j = 2" | "i = 0" "3 \<le> j"
    by linarith
  then show "aux_du_of A i j = first_row A i j"
    by cases (simp_all add: aux_du_of_def first_row_def cmm_set_def cmm_zero_def)
qed

lemma component_fold:
  "fold (\<lambda>j g. g(j := g j + c j)) [0..<d] g = (\<lambda>j. if j < d then g j + c j else g j)"
  for g c :: "nat \<Rightarrow> real"
  by (induction d arbitrary: g) (auto simp: fun_eq_iff less_Suc_eq)

lemma node_fold:
  "fold (\<lambda>i (s, g). (s + a i, fold (\<lambda>j g. g(j := g j + c i j)) [0..<d] g)) ns (s0, g0) =
     (s0 + sum_list (map a ns),
      (\<lambda>j. if j < d then g0 j + sum_list (map (\<lambda>i. c i j) ns) else g0 j))"
  for a :: "nat \<Rightarrow> real" and c :: "nat \<Rightarrow> nat \<Rightarrow> real"
proof (induction ns arbitrary: s0 g0)
  case Nil
  show ?case by (simp add: fun_eq_iff)
next
  case (Cons n ns)
  have "fold (\<lambda>i (s, g). (s + a i, fold (\<lambda>j g. g(j := g j + c i j)) [0..<d] g))
          (n # ns) (s0, g0) =
        fold (\<lambda>i (s, g). (s + a i, fold (\<lambda>j g. g(j := g j + c i j)) [0..<d] g))
          ns (s0 + a n, (\<lambda>j. if j < d then g0 j + c n j else g0 j))"
    by (simp add: component_fold)
  also have "\<dots> = (s0 + sum_list (map a (n # ns)),
      (\<lambda>j. if j < d then g0 j + sum_list (map (\<lambda>i. c i j) (n # ns)) else g0 j))"
    unfolding Cons.IH by (simp add: fun_eq_iff add.assoc)
  finally show ?case .
qed

lemma interpolate_q_closed:
  "interpolate_q ce q_nodes qp =
     (interpolated_q ce q_nodes qp, interpolated_grad_q ce q_nodes qp)"
  unfolding interpolate_q_def interpolated_q_def interpolated_grad_q_def
  by (subst node_fold) (simp add: fun_eq_iff)

lemma constructor_grad_disp_z:
  assumes "InteractionIntegral_constructor parameters = Inr obj"
  shows "grad_disp_z obj =
           (if mesh_dimension parameters = 3 then coupledGradient_disp_z else grad_zero)"
  using assms
  by (auto simp: InteractionIntegral_constructor_def Let_def split: if_splits)

lemma constructor_loaded: "InteractionIntegral_constructor loaded_parameters = Inr loaded_object"
  by (simp add: InteractionIntegral_constructor_def loaded_parameters_def loaded_object_def
      example_parameters_def example_object_def)

lemma constructor_loaded_symmetric:
  "InteractionIntegral_constructor (loaded_parameters\<lparr>p_symmetry_plane := Some 1\<rparr>) =
     Inr (loaded_object\<lparr>has_symmetry_plane := True\<rparr>)"
  by (simp add: InteractionIntegral_constructor_def loaded_parameters_def loaded_object_def
      example_parameters_def example_object_def)

lemma interpolate_q_loaded_elem:
  "interpolate_q loaded_elem [0, 1, 2] 0 =
     (3 / 4, (\<lambda>j. if j = 0 then 1 else if j = 1 then 2 else 0))"
  by (simp add: interpolate_q_def loaded_elem_def fun_eq_iff numeral_2_eq_2 numeral_3_eq_3)

lemma computeQpTerms_loaded_elem:
  assumes "crack_front_definition obj = curved_front"
    and "has_temp obj" and "grad_temp obj = coupledGradient_temp"
    and "grad_disp_z obj = grad_zero"
    and "current_instantaneous_thermal_expansion_coef obj = Some thermal_expansion_coef_prop"
  shows "computeQpTerms obj loaded_elem [0, 1, 2] 0 =
     Inr \<lparr>term1 = 24, term2 = 2, term3 = 6, term4 = 27 / 8, q_avg_seg = 2\<rparr>"
  unfolding computeQpTerms_def interpolate_q_loaded_elem Let_def
  by (simp add: assms curved_front_def cyclic_front_def loaded_elem_def
        doubleContraction_def cmm_mult_def upt_3 dq_matrix_eq_dq_tensor
        dq_tensor_def aux_du_of_def symm_matrix_def grad_disp_matrix_def grad_zero_def
        cmm_set_def cmm_zero_def)

section \<open>The pointwise integrand\<close>

text \<open>
  Claim C1. For an object built by the constructor and set up, and for every element
  and quadrature point, \<open>computeQpIntegral\<close> returns a value (no error), and that value
  is \<open>(term1 + term2 - term3 + term4) / norm\<close>, doubled before the division exactly
  when a symmetry plane is declared, where
  \<open>term1 = aux_du : (dq \<cdot> stress)\<close>,
  \<open>term2\<close> is the sum over \<open>i\<close> of \<open>grad_disp[i][0] * (dq \<cdot> aux_stress)[0][i]\<close>,
  \<open>term3 = dq(0,0) * (aux_stress : strain)\<close>, and \<open>norm\<close> is the normalization
  divisor. Here \<open>dq\<close> is the tensor whose row 0 is the rotated gradient of the
  interpolated nodal weights and whose other rows are zero; \<open>aux_du\<close> is row 0 of the
  auxiliary displacement gradient; \<open>stress\<close> and \<open>strain\<close> are the rotated dense forms
  of the symmetric material tensors; \<open>grad_disp\<close> is the rotated matrix whose rows are
  the gradients of the displacement components (the third row is zero unless the mesh
  is three-dimensional). The division is the one of doubles: a zero divisor gives a
  non-finite value.
\<close>

theorem computeQpIntegral_integrand:
  assumes "InteractionIntegral_constructor parameters = Inr obj0"
    and "obj = initialSetup obj0"
  shows "\<exists>t. computeQpTerms obj ce q_curr_elem qp = Inr t \<and>
           (let cfd = crack_front_definition obj;
                idx = crack_front_point_index obj;
                rot_v = (\<lambda>v. rotateToCrackFrontCoords_vec cfd v idx);
                rot_m = (\<lambda>m. rotateToCrackFrontCoords_mat cfd m idx);
                dq = dq_tensor (rot_v (interpolated_grad_q ce q_curr_elem qp));
                aux_du = first_row (aux_grad_disp ce qp);
                stress_r = rot_m (dense_symmetric (stress_prop ce qp));
                strain_r = rot_m (dense_symmetric (elastic_strain_prop ce qp));
                grad_disp_r =
                  rot_m (displacement_gradient (coupledGradient_disp_x ce qp)
                           (coupledGradient_disp_y ce qp)
                           (if mesh_dimension parameters = 3
                            then coupledGradient_disp_z ce qp else (\<lambda>j. 0)))
            in term1 t = doubleContraction aux_du (cmm_mult dq stress_r) \<and>
               term2 t = sum_list (map (\<lambda>i. grad_disp_r i 0 *
                                            cmm_mult dq (aux_stress ce qp) 0 i) [0..<3]) \<and>
               term3 t = dq 0 0 * doubleContraction (aux_stress ce qp) strain_r) \<and>
           q_avg_seg t = normalization_divisor (crack_front_definition obj)
                           (crack_front_point_index obj) \<and>
           computeQpIntegral obj ce q_curr_elem qp =
             Inr (real_div ((if has_symmetry_plane obj then 2 else 1) *
                            (term1 t + term2 t - term3 t + term4 t))
                           (q_avg_seg t))"
proof -
  from setup_thermal [OF assms]
  obtain t where t: "computeQpTerms obj ce q_curr_elem qp = Inr t"
    and t1: "term1 t = doubleContraction (aux_du_of (aux_grad_disp ce qp))
               (cmm_mult (dq_tensor (grad_q_cf obj ce q_curr_elem qp)) (stress_cf obj ce qp))"
    and t2: "term2 t = grad_disp_cf obj ce qp 0 0 *
               cmm_mult (dq_tensor (grad_q_cf obj ce q_curr_elem qp)) (aux_stress ce qp) 0 0 +
             grad_disp_cf obj ce qp 1 0 *
               cmm_mult (dq_tensor (grad_q_cf obj ce q_curr_elem qp)) (aux_stress ce qp) 0 1 +
             grad_disp_cf obj ce qp 2 0 *
               cmm_mult (dq_tensor (grad_q_cf obj ce q_curr_elem qp)) (aux_stress ce qp) 0 2"
    and t3: "term3 t = grad_q_cf obj ce q_curr_elem qp 0 *
               doubleContraction (aux_stress ce qp) (strain_cf obj ce qp)"
    and avg: "q_avg_seg t = normalization_divisor (crack_front_definition obj)
                              (crack_front_point_index obj)"
    by (rule computeQpTerms_fields [of obj thermal_expansion_coef_prop ce q_curr_elem qp])
  have gz: "grad_disp_z obj ce qp =
      (if mesh_dimension parameters = 3 then coupledGradient_disp_z ce qp else (\<lambda>j. 0))"
    using constructor_grad_disp_z [OF assms(1)] assms(2)
    by (simp add: initialSetup_fields grad_zero_def)
  have gq: "grad_q_cf obj ce q_curr_elem qp =
      rotateToCrackFrontCoords_vec (crack_front_definition obj)
        (interpolated_grad_q ce q_curr_elem qp) (crack_front_point_index obj)"
    by (simp add: grad_q_cf_def interpolate_q_closed)
  have dq00: "dq_tensor g 0 0 = g 0" for g
    by (simp add: dq_tensor_def)
  have fields:
    "term1 t = doubleContraction (first_row (aux_grad_disp ce qp))
       (cmm_mult
          (dq_tensor (rotateToCrackFrontCoords_vec (crack_front_definition obj)
             (interpolated_grad_q ce q_curr_elem qp) (crack_front_point_index obj)))
          (rotateToCrackFrontCoords_mat (crack_front_definition obj)
             (dense_symmetric (stress_prop ce qp)) (crack_front_point_index obj)))"
    "term2 t = sum_list (map (\<lambda>i.
         rotateToCrackFrontCoords_mat (crack_front_definition obj)
           (displacement_gradient (coupledGradient_disp_x ce qp)
              (coupledGradient_disp_y ce qp)
              (if mesh_dimension parameters = 3
               then coupledGradient_disp_z ce qp else (\<lambda>j. 0)))
           (crack_front_point_index obj) i 0 *
         cmm_mult
           (dq_tensor (rotateToCrackFrontCoords_vec (crack_front_definition obj)
              (interpolated_grad_q ce q_curr_elem qp) (crack_front_point_index obj)))
           (aux_stress ce qp) 0 i) [0..<3])"
    "term3 t =
       dq_tensor (rotateToCrackFrontCoords_vec (crack_front_definition obj)
          (interpolated_grad_q ce q_curr_elem qp) (crack_front_point_index obj)) 0 0 *
       doubleContraction (aux_stress ce qp)
         (rotateToCrackFrontCoords_mat (crack_front_definition obj)
            (dense_symmetric (elastic_strain_prop ce qp)) (crack_front_point_index obj))"
    unfolding t1 t2 t3 gq dq00
    by (simp_all add: aux_du_of_first_row stress_cf_def strain_cf_def grad_disp_cf_def
        symm_matrix_dense grad_disp_matrix_rows gz upt_3)
  have doubling: "(if b then 2 * e else e) = (if b then 2 else 1) * e" for b and e :: real
    by simp
  have final: "computeQpIntegral obj ce q_curr_elem qp =
          Inr (real_div ((if has_symmetry_plane obj then 2 else 1) *
                         (term1 t + term2 t - term3 t + term4 t)) (q_avg_seg t))"
    unfolding computeQpIntegral_of_terms [OF t] doubling ..
  show ?thesis
    unfolding Let_def
    by (rule exI [of _ t]) (intro conjI t fields avg final)
qed

text \<open>
  The theorem at the curved front (local axes y, z, x, segment lengths 1 and 3) and the
  loaded triangle, where no term vanishes: \<open>term1 = 24\<close>, \<open>term2 = 2\<close>, \<open>term3 = 6\<close>,
  \<open>term4 = 27/8\<close>, and the integrand is \<open>(24 + 2 - 6 + 27/8) / 2\<close>, twice that with a
  symmetry plane.
\<close>

theorem computeQpIntegral_integrand_witness:
  "InteractionIntegral_constructor loaded_parameters = Inr loaded_object \<and>
   computeQpTerms (initialSetup loaded_object) loaded_elem [0, 1, 2] 0 =
     Inr \<lparr>term1 = 24, term2 = 2, term3 = 6, term4 = 27 / 8, q_avg_seg = 2\<rparr> \<and>
   (let cfd = crack_front_definition (initialSetup loaded_object);
        idx = crack_front_point_index (initialSetup loaded_object);
        rot_v = (\<lambda>v. rotateToCrackFrontCoords_vec cfd v idx);
        rot_m = (\<lambda>m. rotateToCrackFrontCoords_mat cfd m idx);
        dq = dq_tensor (rot_v (interpolated_grad_q loaded_elem [0, 1, 2] 0));
        aux_du = first_row (aux_grad_disp loaded_elem 0);
        stress_r = rot_m (dense_symmetric (stress_prop loaded_elem 0));
        strain_r = rot_m (dense_symmetric (elastic_strain_prop loaded_elem 0));
        grad_disp_r =
          rot_m (displacement_gradient (coupledGradient_disp_x loaded_elem 0)
                   (coupledGradient_disp_y loaded_elem 0)
                   (if mesh_dimension loaded_parameters = 3
                    then coupledGradient_disp_z loaded_elem 0 else (\<lambda>j. 0)))
    in doubleContraction aux_du (cmm_mult dq stress_r) = 24 \<and>
       sum_list (map (\<lambda>i. grad_disp_r i 0 *
                             cmm_mult dq (aux_stress loaded_elem 0) 0 i) [0..<3]) = 2 \<and>
       dq 0 0 * doubleContraction (aux_stress loaded_elem 0) strain_r = 6) \<and>
   computeQpIntegral (initialSetup loaded_object) loaded_elem [0, 1, 2] 0 =
     Inr (Finite ((24 + 2 - 6 + 27 / 8) / 2)) \<and>
   computeQpIntegral (initialSetup (loaded_object\<lparr>has_symmetry_plane := True\<rparr>))
      loaded_elem [0, 1, 2] 0 = Inr (Finite (2 * (24 + 2 - 6 + 27 / 8) / 2))"
proof -
  let ?plain = "initialSetup loaded_object"
  let ?sym = "initialSetup (loaded_object\<lparr>has_symmetry_plane := True\<rparr>)"
  have tp: "computeQpTerms ?plain loaded_elem [0, 1, 2] 0 =
       Inr \<lparr>term1 = 24, term2 = 2, term3 = 6, term4 = 27 / 8, q_avg_seg = 2\<rparr>"
    by (rule computeQpTerms_loaded_elem)
      (simp_all add: initialSetup_fields loaded_object_def example_object_def)
  have ts: "computeQpTerms ?sym loaded_elem [0, 1, 2] 0 =
       Inr \<lparr>term1 = 24, term2 = 2, term3 = 6, term4 = 27 / 8, q_avg_seg = 2\<rparr>"
    by (rule computeQpTerms_loaded_elem)
      (simp_all add: initialSetup_fields loaded_object_def example_object_def)
  have flags: "\<not> has_symmetry_plane ?plain" "has_symmetry_plane ?sym"
    by (simp_all add: initialSetup_fields loaded_object_def example_object_def)
  from computeQpIntegral_integrand [OF constructor_loaded refl, of loaded_elem "[0, 1, 2]" 0]
  have a: "computeQpIntegral ?plain loaded_elem [0, 1, 2] 0 =
     Inr (Finite ((24 + 2 - 6 + 27 / 8) / 2))"
    by (simp add: tp flags real_div_def)
  from computeQpIntegral_integrand [OF constructor_loaded_symmetric refl,
      of loaded_elem "[0, 1, 2]" 0]
  have b: "computeQpIntegral ?sym loaded_elem [0, 1, 2] 0 =
     Inr (Finite (2 * (24 + 2 - 6 + 27 / 8) / 2))"
    by (simp add: ts flags real_div_def)
  from computeQpIntegral_integrand [OF constructor_loaded refl, of loaded_elem "[0, 1, 2]" 0]
  have c: "let cfd = crack_front_definition ?plain;
        idx = crack_front_point_index ?plain;
        rot_v = (\<lambda>v. rotateToCrackFrontCoords_vec cfd v idx);
        rot_m = (\<lambda>m. rotateToCrackFrontCoords_mat cfd m idx);
        dq = dq_tensor (rot_v (interpolated_grad_q loaded_elem [0, 1, 2] 0));
        aux_du = first_row (aux_grad_disp loaded_elem 0);
        stress_r = rot_m (dense_symmetric (stress_prop loaded_elem 0));
        strain_r = rot_m (dense_symmetric (elastic_strain_prop loaded_elem 0));
        grad_disp_r =
          rot_m (displacement_gradient (coupledGradient_disp_x loaded_elem 0)
                   (coupledGradient_disp_y loaded_elem 0)
                   (if mesh_dimension loaded_parameters = 3
                    then coupledGradient_disp_z loaded_elem 0 else (\<lambda>j. 0)))
    in doubleContraction aux_du (cmm_mult dq stress_r) = 24 \<and>
       sum_list (map (\<lambda>i. grad_disp_r i 0 *
                             cmm_mult dq (aux_stress loaded_elem 0) 0 i) [0..<3]) = 2 \<and>
       dq 0 0 * doubleContraction (aux_stress loaded_elem 0) strain_r = 6"
    unfolding tp Let_def by auto
  from constructor_loaded tp c a b show ?thesis
    by (intro conjI)
qed

section \<open>Rotation to the crack-front frame\<close>

text \<open>
  Claim C2, as the code has it. At every quadrature point the q-gradient, the
  displacement gradient, the stress, the strain and the temperature gradient are
  rotated by \<open>rotateToCrackFrontCoords\<close> at the crack-front point index before the four
  terms are computed; the auxiliary stress (like the auxiliary displacement gradient)
  is not rotated by this function: it enters the terms as the material property
  supplies it. The value returned is the specification's evaluator applied to these
  inputs.
\<close>

theorem rotated_inputs_integrand_as_supplied:
  assumes "InteractionIntegral_constructor parameters = Inr obj0"
    and "obj = initialSetup obj0"
  shows "computeQpIntegral obj ce q_curr_elem qp =
           Inr (rotated_inputs_integrand False obj ce q_curr_elem qp)"
proof -
  from setup_thermal [OF assms]
  obtain t where t: "computeQpTerms obj ce q_curr_elem qp = Inr t"
    and fields: 
      "term1 t = doubleContraction (aux_du_of (aux_grad_disp ce qp))
                     (cmm_mult (dq_tensor (grad_q_cf obj ce q_curr_elem qp)) (stress_cf obj ce qp))"
      "term2 t = grad_disp_cf obj ce qp 0 0 *
                     cmm_mult (dq_tensor (grad_q_cf obj ce q_curr_elem qp)) (aux_stress ce qp) 0 0 +
                   grad_disp_cf obj ce qp 1 0 *
                     cmm_mult (dq_tensor (grad_q_cf obj ce q_curr_elem qp)) (aux_stress ce qp) 0 1 +
                   grad_disp_cf obj ce qp 2 0 *
                     cmm_mult (dq_tensor (grad_q_cf obj ce q_curr_elem qp)) (aux_stress ce qp) 0 2"
      "term3 t = grad_q_cf obj ce q_curr_elem qp 0 *
                     doubleContraction (aux_stress ce qp) (strain_cf obj ce qp)"
      "term4 t = (if has_temp obj
                    then scalar_q_at ce q_curr_elem qp * trace3 (aux_stress ce qp) *
                         thermal_expansion_coef_prop ce qp * grad_temp_cf obj ce qp 0
                    else 0)"
      "q_avg_seg t = normalization_divisor (crack_front_definition obj)
                         (crack_front_point_index obj)"
    by (rule computeQpTerms_fields [of obj thermal_expansion_coef_prop ce q_curr_elem qp])
  have rhs: "rotated_inputs_integrand False obj ce q_curr_elem qp =
           real_div (if has_symmetry_plane obj
                          then 2 * (term1 t + term2 t - term3 t + term4 t)
                          else term1 t + term2 t - term3 t + term4 t)
                         (q_avg_seg t)"
    unfolding fields rotated_inputs_integrand_def PointwiseIntegrandEvaluator_def
    by (simp only: Let_def upt_3 list.map sum_list.Cons sum_list.Nil
        grad_q_cf_def grad_disp_cf_def stress_cf_def strain_cf_def
        grad_temp_cf_def scalar_q_at_def if_False add_0_right add.assoc)
  show ?thesis
    unfolding rhs by (rule computeQpIntegral_of_terms [OF t])
qed

text \<open>The theorem at the rotated front and the strained element.\<close>

theorem rotated_inputs_integrand_as_supplied_witness:
  "InteractionIntegral_constructor cyclic_parameters = Inr cyclic_object \<and>
   computeQpIntegral (initialSetup cyclic_object) strained_elem [0, 1] 0 =
     Inr (rotated_inputs_integrand False (initialSetup cyclic_object) strained_elem [0, 1] 0) \<and>
   computeQpIntegral (initialSetup cyclic_object) strained_elem [0, 1] 0 = Inr (Finite 0)"
proof -
  have code: "computeQpIntegral (initialSetup cyclic_object) strained_elem [0, 1] 0 =
                Inr (Finite 0)"
    by (simp add: computeQpIntegral_def computeQpTerms_strained_elem real_div_def)
  from rotated_inputs_integrand_as_supplied [OF constructor_cyclic refl, of strained_elem "[0, 1]" 0]
    constructor_cyclic code
  show ?thesis
    by (intro conjI)
qed

text \<open>
  Claim C2 as it is written counts the auxiliary stress among the rotated quantities.
  At a front whose local axes are the global ones in the order y, z, x, with a strain
  and an auxiliary stress whose only entry is xx = 1 and a q-gradient along y, the code
  returns 0, while the evaluator with a rotated auxiliary stress gives -1.
\<close>

theorem aux_stress_rotation_counterexample:
  "InteractionIntegral_constructor cyclic_parameters = Inr cyclic_object \<and>
   compute_q_curr_elem (initialSetup cyclic_object) strained_elem = [0, 1] \<and>
   computeQpIntegral (initialSetup cyclic_object) strained_elem [0, 1] 0 = Inr (Finite 0) \<and>
   rotated_inputs_integrand True (initialSetup cyclic_object) strained_elem [0, 1] 0 =
     Finite (- 1)"
proof -
  have code: "computeQpIntegral (initialSetup cyclic_object) strained_elem [0, 1] 0 =
                Inr (Finite 0)"
    by (simp add: computeQpIntegral_def computeQpTerms_strained_elem real_div_def)
  have claim: "rotated_inputs_integrand True (initialSetup cyclic_object) strained_elem [0, 1] 0 =
                 Finite (- 1)"
    unfolding rotated_inputs_integrand_def interpolate_q_strained_elem Let_def
      PointwiseIntegrandEvaluator_def
    by (simp add: initialSetup_def cyclic_object_def example_object_def cyclic_front_def
      strained_elem_def zero_tensor_def doubleContraction_def cmm_mult_def upt_3
      dq_tensor_def aux_du_of_def symm_matrix_def cmm_set_def trace3_def
      cmm_zero_def grad_disp_matrix_def grad_zero_def normalization_divisor_def real_div_def)
  from constructor_cyclic compute_q_strained_elem code claim show ?thesis
    by (intro conjI)
qed

section \<open>Sums, loops and the accumulation\<close>

lemma rv_add_zero: "rv_add v (Finite 0) = v" "rv_add (Finite 0) v = v"
  by (cases v; simp)+

lemma rv_add_NonFinite: "rv_add v NonFinite = NonFinite" "rv_add NonFinite v = NonFinite"
  by (cases v; simp)+

lemma rv_add_assoc: "rv_add (rv_add a b) c = rv_add a (rv_add b c)"
  by (cases a; cases b; cases c; simp)

lemma gatherSum_append: "gatherSum (xs @ ys) = rv_add (gatherSum xs) (gatherSum ys)"
  by (induction xs) (simp_all add: rv_add_zero rv_add_assoc)

lemma computeQpIntegral_returns:
  assumes "has_temp obj \<Longrightarrow> current_instantaneous_thermal_expansion_coef obj = Some coef"
  shows "\<exists>v. computeQpIntegral obj ce q qp = Inr v"
proof -
  from assms obtain t where "computeQpTerms obj ce q qp = Inr t"
    by (rule computeQpTerms_fields)
  then show ?thesis
    by (simp add: computeQpIntegral_of_terms)
qed

lemma quadrature_loop_returns:
  assumes "\<And>qp. \<exists>v. computeQpIntegral obj ce q qp = Inr v"
  shows "\<exists>v. quadrature_loop obj ce q qps acc = Inr v"
proof (induction qps arbitrary: acc)
  case Nil
  show ?case by simp
next
  case (Cons qp qps)
  from assms obtain v where "computeQpIntegral obj ce q qp = Inr v"
    by blast
  with Cons.IH show ?case
    by simp
qed

lemma quadrature_loop_zero:
  assumes "\<And>qp. qp \<in> set qps \<Longrightarrow> computeQpIntegral obj ce q qp = Inr (Finite 0)"
  shows "quadrature_loop obj ce q qps acc = Inr acc"
  using assms
  by (induction qps arbitrary: acc) (simp_all add: rv_add_zero)

lemma quadrature_loop_NonFinite:
  assumes "\<And>qp. computeQpIntegral obj ce q qp = Inr NonFinite"
    and "qps \<noteq> [] \<or> acc = NonFinite"
  shows "quadrature_loop obj ce q qps acc = Inr NonFinite"
  using assms(2)
proof (induction qps arbitrary: acc)
  case Nil
  then show ?case by simp
next
  case (Cons qp qps)
  show ?case
    by (simp add: assms(1) rv_add_NonFinite Cons.IH)
qed

lemma computeIntegral_returns:
  assumes "has_temp obj \<Longrightarrow> current_instantaneous_thermal_expansion_coef obj = Some coef"
  shows "\<exists>v. computeIntegral obj ce = Inr v"
  unfolding computeIntegral_def
  by (rule quadrature_loop_returns) (rule computeQpIntegral_returns [OF assms])

lemma execute_elems_sum:
  assumes "map (computeIntegral obj) ces = map Inr cs"
  shows "execute_elems obj ces acc = Inr (rv_add acc (gatherSum cs))"
  using assms
proof (induction ces arbitrary: cs acc)
  case Nil
  then show ?case by (simp add: rv_add_zero)
next
  case (Cons ce ces)
  then obtain c cs' where cs: "cs = c # cs'" and c: "computeIntegral obj ce = Inr c"
    and rest: "map (computeIntegral obj) ces = map Inr cs'"
    by (cases cs) auto
  from Cons.IH [OF rest] show ?case
    by (simp add: cs c rv_add_assoc)
qed

lemma execute_all_sum:
  assumes "map (computeIntegral obj) (concat partitions) = map Inr cs"
  shows "\<exists>vs. execute_all obj partitions = Inr vs \<and> gatherSum vs = gatherSum cs"
  using assms
proof (induction partitions arbitrary: cs)
  case Nil
  then show ?case by simp
next
  case (Cons ces rest)
  from Cons.prems have "map (computeIntegral obj) ces @ map (computeIntegral obj) (concat rest)
      = map Inr cs"
    by simp
  then obtain cs1 cs2 where cs: "cs = cs1 @ cs2"
    and one: "map (computeIntegral obj) ces = map Inr cs1"
    and two: "map (computeIntegral obj) (concat rest) = map Inr cs2"
    by (auto simp: append_eq_map_conv)
  from Cons.IH [OF two] obtain vs where vs: "execute_all obj rest = Inr vs"
    and sum: "gatherSum vs = gatherSum cs2"
    by blast
  show ?case
    by (simp add: execute_elems_sum [OF one] vs sum cs gatherSum_append rv_add_zero)
qed

lemma all_contributions:
  assumes "has_temp obj \<Longrightarrow> current_instantaneous_thermal_expansion_coef obj = Some coef"
  shows "\<exists>cs. map (computeIntegral obj) ces = map Inr cs"
proof (induction ces)
  case Nil
  show ?case by simp
next
  case (Cons ce ces)
  then obtain cs where "map (computeIntegral obj) ces = map Inr cs"
    by blast
  moreover from computeIntegral_returns [OF assms] obtain c where "computeIntegral obj ce = Inr c"
    by blast
  ultimately have "map (computeIntegral obj) (ce # ces) = map Inr (c # cs)"
    by simp
  then show ?case
    by blast
qed

lemma evaluate_constructed:
  assumes "InteractionIntegral_constructor parameters = Inr obj0"
    and "execute_all (initialSetup obj0) partitions = Inr vs"
  shows "evaluate parameters partitions = Inr (getValue (initialSetup obj0) vs)"
  by (simp add: evaluate_def assms Let_def)

lemma getValue_value:
  "getValue (initialSetup obj0) vs =
     rv_mult (K_factor obj0)
       (rv_add (gatherSum vs)
          (Finite (if t_stress obj0 \<and> \<not> treatAs2D (crack_front_definition obj0)
                   then poissons_ratio obj0 *
                        getCrackFrontTangentialStrain (crack_front_definition obj0)
                          (crack_front_point_index obj0)
                   else 0)))"
  by (simp add: getValue_def Let_def initialSetup_fields rv_add_zero)

section \<open>The thermal term\<close>

lemma constructor_grad_temp:
  assumes "InteractionIntegral_constructor parameters = Inr obj"
  shows "grad_temp obj = (if has_temp obj then coupledGradient_temp else grad_zero)"
  using assms
  by (auto simp: InteractionIntegral_constructor_def Let_def split: if_splits)

lemma computeQpTerms_thermal_elem:
  assumes "crack_front_definition obj = example_front\<lparr>treatAs2D := flat\<rparr>"
    and "has_temp obj" and "grad_temp obj = coupledGradient_temp"
    and "current_instantaneous_thermal_expansion_coef obj = Some thermal_expansion_coef_prop"
  shows "computeQpTerms obj thermal_elem [1, 1] 0 =
       Inr \<lparr>term1 = 0, term2 = 0, term3 = 0, term4 = 10,
            q_avg_seg = (if flat then 1 else 2)\<rparr>"
  unfolding computeQpTerms_def interpolate_q_thermal_elem Let_def
  by (simp add: assms example_front_def thermal_elem_def
        zero_tensor_def doubleContraction_def cmm_mult_def upt_3 dq_matrix_eq_dq_tensor
        dq_tensor_def aux_du_of_def symm_matrix_def cmm_set_def cmm_zero_def)

lemma interpolated_q_thermal_elem: "interpolated_q thermal_elem [1, 1] 0 = 1"
  using interpolate_q_thermal_elem by (simp add: interpolate_q_closed)

lemma interpolated_q_loaded_elem: "interpolated_q loaded_elem [0, 1, 2] 0 = 3 / 4"
  using interpolate_q_loaded_elem by (simp add: interpolate_q_closed)

lemma compute_q_loaded_elem:
  "compute_q_curr_elem (initialSetup loaded_object) loaded_elem = [0, 1, 2]"
  by (simp add: compute_q_curr_elem_def initialSetup_fields loaded_object_def
      example_object_def curved_front_def cyclic_front_def loaded_elem_def)

text \<open>
  Claim C5. For an object built by the constructor and set up, \<open>term4\<close> is exactly zero
  when no temperature is coupled. When a temperature is coupled, \<open>term4\<close> is the
  interpolated scalar q (the sum over the nodes of shape function times nodal weight)
  times the trace of the auxiliary stress times the instantaneous thermal-expansion
  coefficient at the point times the first component of the rotated temperature
  gradient, a function of these four numbers alone; with the values 1, 5, 1 and 2 it
  is 10.
\<close>

theorem term4_thermal:
  assumes "InteractionIntegral_constructor parameters = Inr obj0"
    and "obj = initialSetup obj0"
  shows "\<exists>t. computeQpTerms obj ce q_curr_elem qp = Inr t \<and>
           (\<not> has_temp obj \<longrightarrow> term4 t = 0) \<and>
           (has_temp obj \<longrightarrow>
              term4 t = interpolated_q ce q_curr_elem qp * trace3 (aux_stress ce qp) *
                        thermal_expansion_coef_prop ce qp *
                        rotateToCrackFrontCoords_vec (crack_front_definition obj)
                          (coupledGradient_temp ce qp) (crack_front_point_index obj) 0) \<and>
           (has_temp obj \<and> interpolated_q ce q_curr_elem qp = 1 \<and>
            trace3 (aux_stress ce qp) = 5 \<and> thermal_expansion_coef_prop ce qp = 1 \<and>
            rotateToCrackFrontCoords_vec (crack_front_definition obj)
              (coupledGradient_temp ce qp) (crack_front_point_index obj) 0 = 2 \<longrightarrow>
              term4 t = 10)"
proof -
  from setup_thermal [OF assms]
  obtain t where t: "computeQpTerms obj ce q_curr_elem qp = Inr t"
    and t4: "term4 t = (if has_temp obj
                    then scalar_q_at ce q_curr_elem qp * trace3 (aux_stress ce qp) *
                         thermal_expansion_coef_prop ce qp * grad_temp_cf obj ce qp 0
                    else 0)"
    by (rule computeQpTerms_fields [of obj thermal_expansion_coef_prop ce q_curr_elem qp])
  have gt: "grad_temp obj = (if has_temp obj then coupledGradient_temp else grad_zero)"
    using constructor_grad_temp [OF assms(1)] assms(2) by (simp add: initialSetup_fields)
  have sq: "scalar_q_at ce q_curr_elem qp = interpolated_q ce q_curr_elem qp"
    by (simp add: scalar_q_at_def interpolate_q_closed)
  have off: "\<not> has_temp obj \<longrightarrow> term4 t = 0"
    by (simp add: t4)
  have on: "has_temp obj \<longrightarrow>
              term4 t = interpolated_q ce q_curr_elem qp * trace3 (aux_stress ce qp) *
                        thermal_expansion_coef_prop ce qp *
                        rotateToCrackFrontCoords_vec (crack_front_definition obj)
                          (coupledGradient_temp ce qp) (crack_front_point_index obj) 0"
    by (simp add: t4 gt grad_temp_cf_def sq)
  have scenario: "has_temp obj \<and> interpolated_q ce q_curr_elem qp = 1 \<and>
            trace3 (aux_stress ce qp) = 5 \<and> thermal_expansion_coef_prop ce qp = 1 \<and>
            rotateToCrackFrontCoords_vec (crack_front_definition obj)
              (coupledGradient_temp ce qp) (crack_front_point_index obj) 0 = 2 \<longrightarrow>
              term4 t = 10"
    using on by simp
  show ?thesis
    by (rule exI [of _ t]) (intro conjI t off on scenario)
qed

text \<open>
  The theorem at the thermal element, where the four numbers are 1, 5, 1 and 2 and the
  code computes \<open>term4 = 10\<close>, and at the loaded triangle with the nodal weights 0, 1, 2
  from the generator, where they are 3/4, 3, 1/2 and 3.
\<close>

theorem term4_thermal_witness:
  "InteractionIntegral_constructor example_parameters = Inr example_object \<and>
   computeQpTerms (initialSetup example_object) thermal_elem [1, 1] 0 =
     Inr \<lparr>term1 = 0, term2 = 0, term3 = 0, term4 = 10, q_avg_seg = 2\<rparr> \<and>
   has_temp (initialSetup example_object) \<and>
   interpolated_q thermal_elem [1, 1] 0 = 1 \<and>
   trace3 (aux_stress thermal_elem 0) = 5 \<and>
   thermal_expansion_coef_prop thermal_elem 0 = 1 \<and>
   rotateToCrackFrontCoords_vec (crack_front_definition (initialSetup example_object))
     (coupledGradient_temp thermal_elem 0)
     (crack_front_point_index (initialSetup example_object)) 0 = 2 \<and>
   InteractionIntegral_constructor loaded_parameters = Inr loaded_object \<and>
   compute_q_curr_elem (initialSetup loaded_object) loaded_elem = [0, 1, 2] \<and>
   has_temp (initialSetup loaded_object) \<and>
   interpolated_q loaded_elem [0, 1, 2] 0 = 3 / 4 \<and>
   trace3 (aux_stress loaded_elem 0) = 3 \<and>
   thermal_expansion_coef_prop loaded_elem 0 = 1 / 2 \<and>
   rotateToCrackFrontCoords_vec (crack_front_definition (initialSetup loaded_object))
     (coupledGradient_temp loaded_elem 0)
     (crack_front_point_index (initialSetup loaded_object)) 0 = 3 \<and>
   term4 (projr (computeQpTerms (initialSetup loaded_object) loaded_elem [0, 1, 2] 0)) =
     3 / 4 * 3 * (1 / 2) * 3"
proof -
  have t: "computeQpTerms (initialSetup example_object) thermal_elem [1, 1] 0 =
     Inr \<lparr>term1 = 0, term2 = 0, term3 = 0, term4 = 10, q_avg_seg = 2\<rparr>"
    using computeQpTerms_thermal_elem [of "initialSetup example_object" False]
    by (simp add: initialSetup_fields example_object_def example_front_def)
  have i1: "has_temp (initialSetup example_object)"
    by (simp add: initialSetup_fields example_object_def)
  have i2: "interpolated_q thermal_elem [1, 1] 0 = 1"
    by (rule interpolated_q_thermal_elem)
  have i3: "trace3 (aux_stress thermal_elem 0) = 5"
    "thermal_expansion_coef_prop thermal_elem 0 = 1"
    "rotateToCrackFrontCoords_vec (crack_front_definition (initialSetup example_object))
       (coupledGradient_temp thermal_elem 0)
       (crack_front_point_index (initialSetup example_object)) 0 = 2"
    by (simp_all add: initialSetup_fields example_object_def example_front_def
        trace3_def thermal_elem_def)
  note inputs = i1 i2 i3
  from term4_thermal [OF constructor_example refl, of thermal_elem "[1, 1]" 0]
  have "term4 (projr (computeQpTerms (initialSetup example_object) thermal_elem [1, 1] 0)) = 10"
    using inputs by auto
  have l1: "has_temp (initialSetup loaded_object)"
    by (simp add: initialSetup_fields loaded_object_def example_object_def)
  have l2: "interpolated_q loaded_elem [0, 1, 2] 0 = 3 / 4"
    by (rule interpolated_q_loaded_elem)
  have l3: "trace3 (aux_stress loaded_elem 0) = 3"
    "thermal_expansion_coef_prop loaded_elem 0 = 1 / 2"
    "rotateToCrackFrontCoords_vec (crack_front_definition (initialSetup loaded_object))
       (coupledGradient_temp loaded_elem 0)
       (crack_front_point_index (initialSetup loaded_object)) 0 = 3"
    by (simp_all add: initialSetup_fields loaded_object_def example_object_def
        curved_front_def cyclic_front_def trace3_def loaded_elem_def)
  from term4_thermal [OF constructor_loaded refl, of loaded_elem "[0, 1, 2]" 0]
  have l4: "term4 (projr (computeQpTerms (initialSetup loaded_object) loaded_elem [0, 1, 2] 0)) =
      3 / 4 * 3 * (1 / 2) * 3"
    using l1 l2 l3 by auto
  from t constructor_example inputs constructor_loaded compute_q_loaded_elem l1 l2 l3 l4
  show ?thesis
    by (intro conjI)
qed

section \<open>A front treated as 2D\<close>




section \<open>Segments of length zero\<close>

text \<open>
  Claim C8, as the code has it. \<open>computeQpIntegral\<close> has no check of the segment
  lengths. For a crack front not treated as 2D whose forward and backward segment
  lengths at the crack-front point are both zero, no error is raised: the division by
  \<open>q_avg_seg = 0\<close> is carried out, the integrand returned is not finite (an infinity or
  a NaN), and so is the contribution of every element with a quadrature point.
\<close>

theorem zero_segments_nonfinite:
  assumes "InteractionIntegral_constructor parameters = Inr obj0"
    and "obj = initialSetup obj0"
    and "\<not> treatAs2D (crack_front_definition obj)"
    and "getCrackFrontForwardSegmentLength (crack_front_definition obj)
           (crack_front_point_index obj) = 0"
    and "getCrackFrontBackwardSegmentLength (crack_front_definition obj)
           (crack_front_point_index obj) = 0"
  shows "computeQpIntegral obj ce q_curr_elem qp = Inr NonFinite \<and>
         (0 < n_points ce \<longrightarrow> computeIntegral obj ce = Inr NonFinite)"
proof -
  have every: "computeQpIntegral obj ce q qp = Inr NonFinite" for q qp
  proof -
    from setup_thermal [OF assms(1,2)]
    obtain t where t: "computeQpTerms obj ce q qp = Inr t"
      and avg: "q_avg_seg t = normalization_divisor (crack_front_definition obj)
                                (crack_front_point_index obj)"
      by (rule computeQpTerms_fields [of obj thermal_expansion_coef_prop ce q qp])
    from assms(3-5) have "q_avg_seg t = 0"
      by (simp add: avg normalization_divisor_def)
    then show ?thesis
      by (simp add: computeQpIntegral_of_terms [OF t] real_div_def)
  qed
  have "computeIntegral obj ce = Inr NonFinite" if "0 < n_points ce"
    unfolding computeIntegral_def
    by (rule quadrature_loop_NonFinite) (use every that in auto)
  with every show ?thesis
    by blast
qed

text \<open>The theorem at the degenerate front with a symmetry plane, on the zero-field element.\<close>

lemma constructor_degenerate_symmetric:
  "InteractionIntegral_constructor (degenerate_parameters\<lparr>p_symmetry_plane := Some 1\<rparr>) =
     Inr (degenerate_object\<lparr>has_symmetry_plane := True\<rparr>)"
  by (simp add: InteractionIntegral_constructor_def degenerate_parameters_def
      degenerate_object_def example_parameters_def example_object_def)

theorem zero_segments_nonfinite_witness:
  "InteractionIntegral_constructor (degenerate_parameters\<lparr>p_symmetry_plane := Some 1\<rparr>) =
     Inr (degenerate_object\<lparr>has_symmetry_plane := True\<rparr>) \<and>
   0 < n_points zero_field_elem \<and>
   computeQpIntegral (initialSetup (degenerate_object\<lparr>has_symmetry_plane := True\<rparr>))
     zero_field_elem [1, 1] 0 = Inr NonFinite \<and>
   computeIntegral (initialSetup (degenerate_object\<lparr>has_symmetry_plane := True\<rparr>))
     zero_field_elem = Inr NonFinite"
proof -
  let ?obj = "initialSetup (degenerate_object\<lparr>has_symmetry_plane := True\<rparr>)"
  have front: "crack_front_definition ?obj = degenerate_front"
    by (simp add: initialSetup_fields degenerate_object_def example_object_def)
  have geometry: "\<not> treatAs2D (crack_front_definition ?obj)"
    "getCrackFrontForwardSegmentLength (crack_front_definition ?obj)
       (crack_front_point_index ?obj) = 0"
    "getCrackFrontBackwardSegmentLength (crack_front_definition ?obj)
       (crack_front_point_index ?obj) = 0"
    unfolding front by (simp_all add: degenerate_front_def example_front_def)
  have pts: "0 < n_points zero_field_elem"
    by (simp add: zero_field_elem_def thermal_elem_def)
  from zero_segments_nonfinite [OF constructor_degenerate_symmetric refl geometry,
      of zero_field_elem "[1, 1]" 0] pts constructor_degenerate_symmetric
  show ?thesis
    by simp
qed

text \<open>
  Claim C8 as it is written asks for a detectable error instead. At the degenerate
  front (not 2D, both segment lengths 0) and the thermal element, the code returns
  the non-finite integrand \<open>10 / 0\<close> as a value, and the whole evaluation returns a
  non-finite value, not an error.
\<close>

theorem zero_segments_counterexample:
  "InteractionIntegral_constructor degenerate_parameters = Inr degenerate_object \<and>
   \<not> treatAs2D (crack_front_definition (initialSetup degenerate_object)) \<and>
   getCrackFrontForwardSegmentLength (crack_front_definition (initialSetup degenerate_object))
     (crack_front_point_index (initialSetup degenerate_object)) = 0 \<and>
   getCrackFrontBackwardSegmentLength (crack_front_definition (initialSetup degenerate_object))
     (crack_front_point_index (initialSetup degenerate_object)) = 0 \<and>
   computeQpIntegral (initialSetup degenerate_object) thermal_elem [1, 1] 0 = Inr NonFinite \<and>
   evaluate degenerate_parameters [[thermal_elem]] = Inr NonFinite"
proof -
  let ?obj = "initialSetup degenerate_object"
  have front: "crack_front_definition ?obj = degenerate_front"
    by (simp add: initialSetup_fields degenerate_object_def example_object_def)
  have geometry: "\<not> treatAs2D degenerate_front"
    "getCrackFrontForwardSegmentLength degenerate_front (crack_front_point_index ?obj) = 0"
    "getCrackFrontBackwardSegmentLength degenerate_front (crack_front_point_index ?obj) = 0"
    by (simp_all add: degenerate_front_def example_front_def)
  have t: "computeQpTerms ?obj thermal_elem [1, 1] 0 =
     Inr \<lparr>term1 = 0, term2 = 0, term3 = 0, term4 = 10, q_avg_seg = 0\<rparr>"
    unfolding computeQpTerms_def interpolate_q_thermal_elem Let_def
    by (simp add: initialSetup_fields degenerate_object_def example_object_def
        degenerate_front_def example_front_def thermal_elem_def
        zero_tensor_def doubleContraction_def cmm_mult_def upt_3 dq_matrix_eq_dq_tensor
        dq_tensor_def aux_du_of_def symm_matrix_def cmm_set_def cmm_zero_def)
  have qp: "computeQpIntegral ?obj thermal_elem [1, 1] 0 = Inr NonFinite"
    by (simp add: computeQpIntegral_of_terms [OF t] real_div_def)
  have q: "compute_q_curr_elem ?obj thermal_elem = [1, 1]"
    by (simp add: compute_q_curr_elem_def initialSetup_fields degenerate_object_def
        example_object_def degenerate_front_def example_front_def thermal_elem_def)
  have pts: "[0..<n_points thermal_elem] = [0]"
    by (simp add: thermal_elem_def)
  have elem: "computeIntegral ?obj thermal_elem = Inr NonFinite"
    by (simp add: computeIntegral_def q pts qp)
  have "evaluate degenerate_parameters [[thermal_elem]] = Inr NonFinite"
    by (simp add: evaluate_def constructor_degenerate Let_def elem getValue_def)
  with constructor_degenerate geometry qp show ?thesis
    unfolding front by (intro conjI)
qed

section \<open>The check of the thermal-expansion property\<close>

lemma compute_q_thermal_elem:
  assumes "crack_front_definition obj = example_front\<lparr>treatAs2D := flat\<rparr>"
    and "ring_index obj = 2" and "q_function_type obj = Geometry"
  shows "compute_q_curr_elem obj thermal_elem = [1, 1]"
  by (simp add: compute_q_curr_elem_def assms example_front_def thermal_elem_def)

lemma computeIntegral_thermal_elem:
  assumes "crack_front_definition obj = example_front\<lparr>treatAs2D := flat\<rparr>"
    and "ring_index obj = 2" and "q_function_type obj = Geometry"
    and "has_temp obj" and "grad_temp obj = coupledGradient_temp"
    and "current_instantaneous_thermal_expansion_coef obj = Some thermal_expansion_coef_prop"
    and "\<not> has_symmetry_plane obj"
  shows "computeIntegral obj thermal_elem = Inr (Finite (if flat then 3 else 3 / 2))"
proof -
  note t = computeQpTerms_thermal_elem [OF assms(1,4,5,6)]
  have qp: "computeQpIntegral obj thermal_elem [1, 1] 0 =
              Inr (Finite (if flat then 10 else 5))"
    by (simp add: computeQpIntegral_of_terms [OF t] assms(7) real_div_def)
  have pts: "[0..<n_points thermal_elem] = [0]" "JxW thermal_elem 0 * coord thermal_elem 0 = 3 / 10"
    by (simp_all add: thermal_elem_def)
  show ?thesis
    by (simp add: computeIntegral_def compute_q_thermal_elem [OF assms(1,2,3)] pts qp)
qed

lemma computeIntegral_example:
  "computeIntegral (initialSetup example_object) thermal_elem = Inr (Finite (3 / 2))"
  using computeIntegral_thermal_elem [of "initialSetup example_object" False]
  by (simp add: initialSetup_fields example_object_def example_front_def)

lemma computeIntegral_flat:
  "computeIntegral (initialSetup flat_object) thermal_elem = Inr (Finite 3)"
  using computeIntegral_thermal_elem [of "initialSetup flat_object" True]
  by (simp add: initialSetup_fields flat_object_def example_object_def)

lemma constructor_result:
  "InteractionIntegral_constructor parameters =
     (if isCoupled_temp parameters \<and> \<not> hasMaterialProperty_thermal_expansion parameters
      then Inl (MooseError thermal_property_message)
      else Inr (projr (InteractionIntegral_constructor parameters)))"
  by (simp add: InteractionIntegral_constructor_def Let_def)

lemma evaluate_returns:
  assumes "InteractionIntegral_constructor parameters = Inr obj0"
  shows "\<exists>v. evaluate parameters partitions = Inr v"
proof -
  let ?obj = "initialSetup obj0"
  note thermal = setup_thermal [OF assms refl]
  from all_contributions [of ?obj thermal_expansion_coef_prop "concat partitions"] thermal
  obtain cs where "map (computeIntegral ?obj) (concat partitions) = map Inr cs"
    by blast
  from execute_all_sum [OF this] obtain vs where "execute_all ?obj partitions = Inr vs"
    by blast
  from evaluate_constructed [OF assms this] show ?thesis
    by blast
qed

text \<open>
  Claim C6. The constructor fails with the fatal error about the thermal-expansion
  property exactly when the temperature is coupled and the property is not available.
  Then the evaluation ends with that error whatever the elements are: no element and
  no quadrature point is evaluated. When the constructor succeeds, no later step
  raises an error: \<open>computeQpIntegral\<close>, \<open>computeIntegral\<close> and the whole evaluation
  return values. So the error is raised once, at construction, never in the
  integration loop.
\<close>

theorem thermal_property_checked_at_setup:
  "(InteractionIntegral_constructor parameters = Inl (MooseError thermal_property_message)) =
     (isCoupled_temp parameters \<and> \<not> hasMaterialProperty_thermal_expansion parameters) \<and>
   (isCoupled_temp parameters \<and> \<not> hasMaterialProperty_thermal_expansion parameters \<longrightarrow>
      evaluate parameters partitions = Inl (MooseError thermal_property_message)) \<and>
   (\<not> (isCoupled_temp parameters \<and> \<not> hasMaterialProperty_thermal_expansion parameters) \<longrightarrow>
      (\<exists>obj0. InteractionIntegral_constructor parameters = Inr obj0 \<and>
         (\<exists>v. computeQpIntegral (initialSetup obj0) ce q_curr_elem qp = Inr v) \<and>
         (\<exists>v. computeIntegral (initialSetup obj0) ce = Inr v)) \<and>
      (\<exists>v. evaluate parameters partitions = Inr v))"
proof (cases "isCoupled_temp parameters \<and> \<not> hasMaterialProperty_thermal_expansion parameters")
  case True
  then have fails: "InteractionIntegral_constructor parameters =
      Inl (MooseError thermal_property_message)"
    by (subst constructor_result) simp
  then have "evaluate parameters partitions = Inl (MooseError thermal_property_message)"
    by (simp add: evaluate_def)
  with True fails show ?thesis
    by simp
next
  case False
  then have built: "InteractionIntegral_constructor parameters =
      Inr (projr (InteractionIntegral_constructor parameters))"
    by (subst constructor_result) simp
  define obj0 where "obj0 = projr (InteractionIntegral_constructor parameters)"
  with built have obj0: "InteractionIntegral_constructor parameters = Inr obj0"
    by simp
  note thermal = setup_thermal [OF obj0 refl]
  have qp: "\<exists>v. computeQpIntegral (initialSetup obj0) ce q_curr_elem qp = Inr v"
    by (rule computeQpIntegral_returns [of _ thermal_expansion_coef_prop]) (rule thermal)
  have elem: "\<exists>v. computeIntegral (initialSetup obj0) ce = Inr v"
    by (rule computeIntegral_returns [of _ thermal_expansion_coef_prop]) (rule thermal)
  from obj0 have "InteractionIntegral_constructor parameters \<noteq>
      Inl (MooseError thermal_property_message)"
    by simp
  with False obj0 qp elem evaluate_returns [OF obj0, of partitions] show ?thesis
    by blast
qed

text \<open>
  The theorem at the example parameters without the property (the error, with two
  processes of one element each) and with it (the value 6).
\<close>

theorem thermal_property_checked_at_setup_witness:
  "isCoupled_temp (example_parameters\<lparr>hasMaterialProperty_thermal_expansion := False\<rparr>) \<and>
   \<not> hasMaterialProperty_thermal_expansion
       (example_parameters\<lparr>hasMaterialProperty_thermal_expansion := False\<rparr>) \<and>
   InteractionIntegral_constructor
       (example_parameters\<lparr>hasMaterialProperty_thermal_expansion := False\<rparr>) =
     Inl (MooseError thermal_property_message) \<and>
   evaluate (example_parameters\<lparr>hasMaterialProperty_thermal_expansion := False\<rparr>)
       [[thermal_elem], [thermal_elem]] =
     Inl (MooseError thermal_property_message) \<and>
   hasMaterialProperty_thermal_expansion example_parameters \<and>
   evaluate example_parameters [[thermal_elem], [thermal_elem]] = Inr (Finite 6)"
proof -
  let ?bad = "example_parameters\<lparr>hasMaterialProperty_thermal_expansion := False\<rparr>"
  have bad: "isCoupled_temp ?bad" "\<not> hasMaterialProperty_thermal_expansion ?bad"
    by (simp_all add: example_parameters_def)
  have good: "\<not> (isCoupled_temp example_parameters \<and>
      \<not> hasMaterialProperty_thermal_expansion example_parameters)"
    by (simp add: example_parameters_def)
  from thermal_property_checked_at_setup [of ?bad "[[thermal_elem], [thermal_elem]]"] bad
  have a: "InteractionIntegral_constructor ?bad = Inl (MooseError thermal_property_message)"
    and b: "evaluate ?bad [[thermal_elem], [thermal_elem]] =
              Inl (MooseError thermal_property_message)"
    by simp_all
  from thermal_property_checked_at_setup [of example_parameters
      "[[thermal_elem], [thermal_elem]]"] good
  have "\<exists>v. evaluate example_parameters [[thermal_elem], [thermal_elem]] = Inr v"
    by simp
  moreover have "evaluate example_parameters [[thermal_elem], [thermal_elem]] =
      Inr (getValue (initialSetup example_object) [Finite (3 / 2), Finite (3 / 2)])"
    by (rule evaluate_constructed [OF constructor_example]) (simp add: computeIntegral_example)
  ultimately have c: "evaluate example_parameters [[thermal_elem], [thermal_elem]] =
      Inr (Finite 6)"
    by (simp add: getValue_value example_object_def)
  have "hasMaterialProperty_thermal_expansion example_parameters"
    by (simp add: example_parameters_def)
  with bad a b c show ?thesis
    by (intro conjI)
qed

section \<open>The ring index\<close>

text \<open>
  Claim C7. For every element, the list \<open>_q_curr_elem\<close> holds, for every node of the
  element in order, the value of the weight-function generator called with the ring
  index \<open>ring_index - 1\<close> (unsigned arithmetic) when the weight kind is Geometry
  (\<open>DomainIntegralQFunction\<close>) and with \<open>ring_index\<close> unchanged when it is Topology
  (\<open>DomainIntegralTopologicalQFunction\<close>). The offset is part of the argument of the
  call; the list is complete before the quadrature loop starts. The generators are
  parameters, so the equations fix the arguments they are called with.
\<close>

theorem ring_index_offset:
  "(q_function_type obj = Geometry \<longrightarrow>
      compute_q_curr_elem obj ce =
        map (DomainIntegralQFunction (crack_front_definition obj)
               (crack_front_point_index obj) (ring_index obj - 1))
            (elem_nodes ce)) \<and>
   (q_function_type obj = Topology \<longrightarrow>
      compute_q_curr_elem obj ce =
        map (DomainIntegralTopologicalQFunction (crack_front_definition obj)
               (crack_front_point_index obj) (ring_index obj))
            (elem_nodes ce)) \<and>
   computeIntegral obj ce =
     quadrature_loop obj ce (compute_q_curr_elem obj ce) [0..<n_points ce] (Finite 0)"
  by (simp add: compute_q_curr_elem_def computeIntegral_def)

text \<open>
  The theorem with generators that return the ring index they are given: for
  \<open>ring_index = 2\<close> the Geometry kind passes 1 and the Topology kind passes 2.
\<close>

theorem ring_index_offset_witness:
  "q_function_type (initialSetup example_object) = Geometry \<and>
   ring_index (initialSetup example_object) = 2 \<and>
   compute_q_curr_elem (initialSetup example_object) thermal_elem = [1, 1] \<and>
   q_function_type (initialSetup (example_object\<lparr>q_function_type := Topology\<rparr>)) = Topology \<and>
   ring_index (initialSetup (example_object\<lparr>q_function_type := Topology\<rparr>)) = 2 \<and>
   compute_q_curr_elem (initialSetup (example_object\<lparr>q_function_type := Topology\<rparr>))
     thermal_elem = [2, 2]"
proof -
  let ?geo = "initialSetup example_object"
  let ?top = "initialSetup (example_object\<lparr>q_function_type := Topology\<rparr>)"
  have g: "q_function_type ?geo = Geometry" "ring_index ?geo = 2"
    by (simp_all add: initialSetup_fields example_object_def)
  have t: "q_function_type ?top = Topology" "ring_index ?top = 2"
    by (simp_all add: initialSetup_fields example_object_def)
  have gen: "DomainIntegralQFunction (crack_front_definition ?geo) i r n = real (unat r)"
    "DomainIntegralTopologicalQFunction (crack_front_definition ?top) i r n = real (unat r)"
    for i r n
    by (simp_all add: initialSetup_fields example_object_def example_front_def)
  have nodes: "elem_nodes thermal_elem = [0, 1]"
    by (simp add: thermal_elem_def)
  from ring_index_offset [of ?geo thermal_elem] g
  have a: "compute_q_curr_elem ?geo thermal_elem = [1, 1]"
    by (simp add: gen nodes)
  from ring_index_offset [of ?top thermal_elem] t
  have b: "compute_q_curr_elem ?top thermal_elem = [2, 2]"
    by (simp add: gen nodes)
  from g a t b show ?thesis
    by (intro conjI)
qed

lemma unat_bound32: "unat (r :: 32 word) < 4294967296"
  using unsigned_less [of r, where 'a = nat] by simp

lemma unat_pred_zero:
  assumes "r = 0"
  shows "unat (r - 1 :: 32 word) = 4294967295"
proof -
  from assms have e: "r - 1 = 4294967295"
    by simp
  show ?thesis
    unfolding e by simp
qed

lemma unat_pred_wraps: "unat (r - 1 :: 32 word) = (unat r + 4294967295) mod 2 ^ 32"
proof (cases "r = 0")
  case True
  from True have "unat r = 0"
    by simp
  with unat_pred_zero [OF True] show ?thesis
    by simp
next
  case False
  then have pos: "0 < unat r"
    by (simp add: unat_gt_0)
  have "unat r + 4294967295 = (unat r - 1) + 1 * 4294967296"
    using pos by simp
  then have "(unat r + 4294967295) mod 4294967296 = (unat r - 1) mod 4294967296"
    by (simp only: mod_mult_self1)
  also have "\<dots> = unat r - 1"
    using unat_bound32 [of r] by simp
  finally have "(unat r + 4294967295) mod 2 ^ 32 = unat r - 1"
    by simp
  with unat_minus_one [OF False] show ?thesis
    by simp
qed

lemma unat_pred_exact: "(int (unat (r - 1 :: 32 word)) = int (unat r) - 1) = (1 \<le> unat r)"
proof (cases "r = 0")
  case True
  from True have "unat r = 0"
    by simp
  with unat_pred_zero [OF True] show ?thesis
    by simp
next
  case False
  then have pos: "0 < unat r"
    by (simp add: unat_gt_0)
  with unat_minus_one [OF False] show ?thesis
    by simp
qed

lemma constructor_ring_index:
  assumes "InteractionIntegral_constructor parameters = Inr obj0"
  shows "ring_index obj0 = p_ring_index parameters"
    and "q_function_type obj0 = p_q_function_type parameters"
    and "crack_front_definition obj0 = p_crack_front_definition parameters"
  using assms
  by (auto simp: InteractionIntegral_constructor_def Let_def split: if_splits)

text \<open>
  Claim C10. With the weight kind Geometry the internal ring index is the unsigned
  difference \<open>ring_index - 1\<close>, that is \<open>(ring_index + 4294967295) mod 2^32\<close>. The
  constructor accepts \<open>ring_index = 0\<close>; then every node's generator call gets the
  ring index 4294967295 and \<open>computeIntegral\<close> returns a value, not an error. The
  internal index is the predecessor of \<open>ring_index\<close> exactly when \<open>ring_index \<ge> 1\<close>.
\<close>

theorem geometry_ring_index_wraps:
  assumes "InteractionIntegral_constructor parameters = Inr obj0"
    and "obj = initialSetup obj0"
    and "p_q_function_type parameters = Geometry"
  shows "(p_ring_index parameters = 0 \<longrightarrow>
            compute_q_curr_elem obj ce =
              map (DomainIntegralQFunction (crack_front_definition obj)
                     (crack_front_point_index obj) 4294967295)
                  (elem_nodes ce) \<and>
            (\<exists>v. computeIntegral obj ce = Inr v)) \<and>
         unat (ring_index obj - 1) = (unat (p_ring_index parameters) + 4294967295) mod 2 ^ 32 \<and>
         (int (unat (ring_index obj - 1)) = int (unat (p_ring_index parameters)) - 1) =
           (1 \<le> unat (p_ring_index parameters))"
proof -
  have ring: "ring_index obj = p_ring_index parameters"
    and kind: "q_function_type obj = Geometry"
    using constructor_ring_index [OF assms(1)] assms(2,3)
    by (simp_all add: initialSetup_fields)
  have returns: "\<exists>v. computeIntegral obj ce = Inr v"
    by (rule computeIntegral_returns [of _ thermal_expansion_coef_prop])
      (rule setup_thermal [OF assms(1,2)])
  have zero: "p_ring_index parameters = 0 \<longrightarrow>
            compute_q_curr_elem obj ce =
              map (DomainIntegralQFunction (crack_front_definition obj)
                     (crack_front_point_index obj) 4294967295)
                  (elem_nodes ce)"
  proof
    assume "p_ring_index parameters = 0"
    then have "ring_index obj - 1 = 4294967295"
      by (simp add: ring)
    then show "compute_q_curr_elem obj ce =
              map (DomainIntegralQFunction (crack_front_definition obj)
                     (crack_front_point_index obj) 4294967295)
                  (elem_nodes ce)"
      by (simp only: compute_q_curr_elem_def Let_def kind MooseEnum.case MooseEnum.distinct
          if_False)
  qed
  have wrap: "unat (ring_index obj - 1) =
      (unat (p_ring_index parameters) + 4294967295) mod 2 ^ 32"
    unfolding ring by (rule unat_pred_wraps)
  have pred: "(int (unat (ring_index obj - 1)) = int (unat (p_ring_index parameters)) - 1) =
           (1 \<le> unat (p_ring_index parameters))"
    unfolding ring by (rule unat_pred_exact)
  from zero returns wrap pred show ?thesis
    by blast
qed

text \<open>
  The theorem at the example with \<open>ring_index = 0\<close>: the generators, which return the
  ring index they are given, return 4294967295 at both nodes.
\<close>

lemma constructor_ring_zero:
  "InteractionIntegral_constructor (example_parameters\<lparr>p_ring_index := 0\<rparr>) =
     Inr (example_object\<lparr>ring_index := 0\<rparr>)"
  by (simp add: InteractionIntegral_constructor_def example_parameters_def example_object_def)

theorem geometry_ring_index_wraps_witness:
  "InteractionIntegral_constructor (example_parameters\<lparr>p_ring_index := 0\<rparr>) =
     Inr (example_object\<lparr>ring_index := 0\<rparr>) \<and>
   p_q_function_type (example_parameters\<lparr>p_ring_index := 0\<rparr>) = Geometry \<and>
   p_ring_index (example_parameters\<lparr>p_ring_index := 0\<rparr>) = 0 \<and>
   compute_q_curr_elem (initialSetup (example_object\<lparr>ring_index := 0\<rparr>)) thermal_elem =
     [4294967295, 4294967295] \<and>
   unat (ring_index (initialSetup (example_object\<lparr>ring_index := 0\<rparr>)) - 1) = 4294967295"
proof -
  let ?p = "example_parameters\<lparr>p_ring_index := 0\<rparr>"
  let ?obj = "initialSetup (example_object\<lparr>ring_index := 0\<rparr>)"
  have kind: "p_q_function_type ?p = Geometry" and ring: "p_ring_index ?p = 0"
    by (simp_all add: example_parameters_def)
  have gen: "DomainIntegralQFunction (crack_front_definition ?obj) i r n = real (unat r)"
    for i r n
    by (simp add: initialSetup_fields example_object_def example_front_def)
  have nodes: "elem_nodes thermal_elem = [0, 1]"
    by (simp add: thermal_elem_def)
  note wraps = geometry_ring_index_wraps [OF constructor_ring_zero refl kind, of thermal_elem]
  from wraps ring have "compute_q_curr_elem ?obj thermal_elem =
      map (DomainIntegralQFunction (crack_front_definition ?obj)
             (crack_front_point_index ?obj) 4294967295) (elem_nodes thermal_elem)"
    by blast
  then have a: "compute_q_curr_elem ?obj thermal_elem = [4294967295, 4294967295]"
    by (simp add: gen nodes)
  from wraps have "unat (ring_index ?obj - 1) = (unat (p_ring_index ?p) + 4294967295) mod 2 ^ 32"
    by blast
  then have b: "unat (ring_index ?obj - 1) = 4294967295"
    by (simp add: ring)
  from constructor_ring_zero kind ring a b show ?thesis
    by (intro conjI)
qed

section \<open>The finalized value\<close>

text \<open>
  Claim C3. For an object built by the constructor and set up, every element
  contributes a value, the totals of the processes add up to the sum of all element
  contributions, and the value returned by \<open>getValue\<close> (the result of the evaluation)
  is \<open>K_factor\<close> times that sum plus, once, \<open>poissons_ratio\<close> times the tangential
  strain at the crack-front point when the T-stress was requested and the front is
  not treated as 2D (nothing is added otherwise). In particular with two elements
  contributing 3 each, a 2D front, no symmetry and no T-stress, the result is
  \<open>K_factor * 6\<close>.
\<close>

theorem getValue_finalized:
  assumes "InteractionIntegral_constructor parameters = Inr obj0"
    and "obj = initialSetup obj0"
  shows "\<exists>contributions vs.
           map (computeIntegral obj) (concat partitions) = map Inr contributions \<and>
           execute_all obj partitions = Inr vs \<and>
           gatherSum vs = gatherSum contributions \<and>
           evaluate parameters partitions = Inr (getValue obj vs) \<and>
           getValue obj vs =
             rv_mult (K_factor obj)
               (rv_add (gatherSum contributions)
                  (Finite (if t_stress obj \<and> \<not> treatAs2D (crack_front_definition obj)
                           then poissons_ratio obj *
                                getCrackFrontTangentialStrain (crack_front_definition obj)
                                  (crack_front_point_index obj)
                           else 0))) \<and>
           (treatAs2D (crack_front_definition obj) \<and> \<not> t_stress obj \<and>
            \<not> has_symmetry_plane obj \<and> contributions = [Finite 3, Finite 3] \<longrightarrow>
              evaluate parameters partitions = Inr (Finite (K_factor obj * 6)))"
proof -
  note thermal = setup_thermal [OF assms]
  from all_contributions [of obj thermal_expansion_coef_prop "concat partitions"] thermal
  obtain cs where cs: "map (computeIntegral obj) (concat partitions) = map Inr cs"
    by blast
  from execute_all_sum [OF cs] obtain vs where vs: "execute_all obj partitions = Inr vs"
    and sum: "gatherSum vs = gatherSum cs"
    by blast
  have ev: "evaluate parameters partitions = Inr (getValue obj vs)"
    using evaluate_constructed [OF assms(1)] vs assms(2) by simp
  have gv: "getValue obj vs =
             rv_mult (K_factor obj)
               (rv_add (gatherSum cs)
                  (Finite (if t_stress obj \<and> \<not> treatAs2D (crack_front_definition obj)
                           then poissons_ratio obj *
                                getCrackFrontTangentialStrain (crack_front_definition obj)
                                  (crack_front_point_index obj)
                           else 0)))"
    unfolding assms(2) getValue_value sum [unfolded assms(2)] initialSetup_fields ..
  have scenario: "treatAs2D (crack_front_definition obj) \<and> \<not> t_stress obj \<and>
            \<not> has_symmetry_plane obj \<and> cs = [Finite 3, Finite 3] \<longrightarrow>
              evaluate parameters partitions = Inr (Finite (K_factor obj * 6))"
    by (simp add: ev gv)
  from cs vs sum ev gv scenario show ?thesis
    by blast
qed

text \<open>
  The theorem at the front treated as 2D with two processes of one thermal element
  each: both contribute 3 and the result is \<open>2 * 6\<close>.
\<close>

theorem getValue_finalized_witness:
  "InteractionIntegral_constructor flat_parameters = Inr flat_object \<and>
   treatAs2D (crack_front_definition (initialSetup flat_object)) \<and>
   \<not> t_stress (initialSetup flat_object) \<and>
   \<not> has_symmetry_plane (initialSetup flat_object) \<and>
   map (computeIntegral (initialSetup flat_object)) (concat [[thermal_elem], [thermal_elem]]) =
     map Inr [Finite 3, Finite 3] \<and>
   K_factor (initialSetup flat_object) = 2 \<and>
   evaluate flat_parameters [[thermal_elem], [thermal_elem]] = Inr (Finite (2 * 6))"
proof -
  let ?obj = "initialSetup flat_object"
  have flags: "treatAs2D (crack_front_definition ?obj)" "\<not> t_stress ?obj"
    "\<not> has_symmetry_plane ?obj" "K_factor ?obj = 2"
    by (simp_all add: initialSetup_fields flat_object_def example_object_def)
  have elems: "map (computeIntegral ?obj) (concat [[thermal_elem], [thermal_elem]]) =
     map Inr [Finite 3, Finite 3]"
    by (simp add: computeIntegral_flat)
  from getValue_finalized [OF constructor_flat refl, of "[[thermal_elem], [thermal_elem]]"]
  obtain contributions where
    c: "map (computeIntegral ?obj) (concat [[thermal_elem], [thermal_elem]]) =
          map Inr contributions"
    and s: "treatAs2D (crack_front_definition ?obj) \<and> \<not> t_stress ?obj \<and>
            \<not> has_symmetry_plane ?obj \<and> contributions = [Finite 3, Finite 3] \<longrightarrow>
              evaluate flat_parameters [[thermal_elem], [thermal_elem]] =
                Inr (Finite (K_factor ?obj * 6))"
    by blast
  from trans [OF c [symmetric] elems] have "contributions = [Finite 3, Finite 3]"
    by (simp only: inj_map_eq_map [OF inj_Inr])
  with s flags have "evaluate flat_parameters [[thermal_elem], [thermal_elem]] =
      Inr (Finite (2 * 6))"
    by simp
  with constructor_flat flags elems show ?thesis
    by (intro conjI)
qed

section \<open>Zero fields\<close>

lemma computeQpIntegral_zero_aux:
  assumes thermal: "has_temp obj \<Longrightarrow> current_instantaneous_thermal_expansion_coef obj = Some coef"
    and aux: "\<And>i j. i < 3 \<Longrightarrow> j < 3 \<Longrightarrow> aux_stress ce qp i j = 0"
    and du: "\<And>j. j < 3 \<Longrightarrow> aux_grad_disp ce qp 0 j = 0"
    and norm: "normalization_divisor (crack_front_definition obj) (crack_front_point_index obj) \<noteq> 0"
  shows "computeQpIntegral obj ce q qp = Inr (Finite 0)"
proof -
  from thermal
  obtain t where t: "computeQpTerms obj ce q qp = Inr t"
    and t1: "term1 t = doubleContraction (aux_du_of (aux_grad_disp ce qp))
                     (cmm_mult (dq_tensor (grad_q_cf obj ce q qp)) (stress_cf obj ce qp))"
    and t2: "term2 t = grad_disp_cf obj ce qp 0 0 *
                     cmm_mult (dq_tensor (grad_q_cf obj ce q qp)) (aux_stress ce qp) 0 0 +
                   grad_disp_cf obj ce qp 1 0 *
                     cmm_mult (dq_tensor (grad_q_cf obj ce q qp)) (aux_stress ce qp) 0 1 +
                   grad_disp_cf obj ce qp 2 0 *
                     cmm_mult (dq_tensor (grad_q_cf obj ce q qp)) (aux_stress ce qp) 0 2"
    and t3: "term3 t = grad_q_cf obj ce q qp 0 *
                     doubleContraction (aux_stress ce qp) (strain_cf obj ce qp)"
    and t4: "term4 t = (if has_temp obj
                    then scalar_q_at ce q qp * trace3 (aux_stress ce qp) * coef ce qp *
                         grad_temp_cf obj ce qp 0
                    else 0)"
    and avg: "q_avg_seg t = normalization_divisor (crack_front_definition obj)
                         (crack_front_point_index obj)"
    by (rule computeQpTerms_fields [of obj coef ce q qp])
  have d: "aux_du_of (aux_grad_disp ce qp) i j = 0" if "i < 3" "j < 3" for i j
    using that du by (auto simp: aux_du_of_def cmm_set_def cmm_zero_def)
  have z1: "term1 t = 0"
    unfolding t1 doubleContraction_def upt_3 by (simp add: d)
  have z2: "term2 t = 0"
    unfolding t2 cmm_mult_def upt_3 by (simp add: aux)
  have z3: "term3 t = 0"
    unfolding t3 doubleContraction_def upt_3 by (simp add: aux)
  have z4: "term4 t = 0"
    unfolding t4 trace3_def by (simp add: aux)
  show ?thesis
    using norm by (simp add: computeQpIntegral_of_terms [OF t] z1 z2 z3 z4 avg real_div_def)
qed

lemma gatherSum_zeros: "gatherSum (map (\<lambda>x. Finite 0) xs) = Finite 0"
  by (induction xs) simp_all

lemma zero_field_elem_fields:
  "stress_prop zero_field_elem qp = zero_tensor"
  "elastic_strain_prop zero_field_elem qp = zero_tensor"
  "aux_stress zero_field_elem qp i j = 0"
  "aux_grad_disp zero_field_elem qp i j = 0"
  "n_points zero_field_elem = 1"
  by (simp_all add: zero_field_elem_def thermal_elem_def)

text \<open>
  Claim C9, as the code has it. Let the stress, the strain, the auxiliary stress and
  the auxiliary displacement gradient be zero at every quadrature point of every
  element, and let the normalization divisor be nonzero (the front is treated as 2D,
  or the two segment lengths do not add up to zero). Then every pointwise integrand
  and every element contribution is exactly zero, and the value of the evaluation is
  \<open>K_factor\<close> times the T-stress term: \<open>poissons_ratio\<close> times the tangential strain
  when the T-stress was requested on a front not treated as 2D, and zero otherwise.
\<close>

theorem zero_fields_integral:
  assumes "InteractionIntegral_constructor parameters = Inr obj0"
    and "obj = initialSetup obj0"
    and "\<forall>ce \<in> set (concat partitions). \<forall>qp < n_points ce.
           stress_prop ce qp = zero_tensor \<and> elastic_strain_prop ce qp = zero_tensor \<and>
           (\<forall>i < 3. \<forall>j < 3. aux_stress ce qp i j = 0 \<and> aux_grad_disp ce qp i j = 0)"
    and "normalization_divisor (crack_front_definition obj) (crack_front_point_index obj) \<noteq> 0"
  shows "(\<forall>ce \<in> set (concat partitions).
            (\<forall>qp < n_points ce.
               computeQpIntegral obj ce (compute_q_curr_elem obj ce) qp = Inr (Finite 0)) \<and>
            computeIntegral obj ce = Inr (Finite 0)) \<and>
         evaluate parameters partitions =
           Inr (Finite (K_factor obj *
                  (if t_stress obj \<and> \<not> treatAs2D (crack_front_definition obj)
                   then poissons_ratio obj *
                        getCrackFrontTangentialStrain (crack_front_definition obj)
                          (crack_front_point_index obj)
                   else 0)))"
proof -
  note thermal = setup_thermal [OF assms(1,2)]
  have point: "computeQpIntegral obj ce q qp = Inr (Finite 0)"
    if "ce \<in> set (concat partitions)" "qp < n_points ce" for ce q qp
  proof (rule computeQpIntegral_zero_aux [of obj thermal_expansion_coef_prop])
    show "has_temp obj \<Longrightarrow>
        current_instantaneous_thermal_expansion_coef obj = Some thermal_expansion_coef_prop"
      by (rule thermal)
    show "aux_stress ce qp i j = 0" if "i < 3" "j < 3" for i j
      using assms(3) \<open>ce \<in> set (concat partitions)\<close> \<open>qp < n_points ce\<close> that by blast
    show "aux_grad_disp ce qp 0 j = 0" if "j < 3" for j
      using assms(3) \<open>ce \<in> set (concat partitions)\<close> \<open>qp < n_points ce\<close> that by force
    show "normalization_divisor (crack_front_definition obj) (crack_front_point_index obj) \<noteq> 0"
      by (rule assms(4))
  qed
  have elem: "computeIntegral obj ce = Inr (Finite 0)" if "ce \<in> set (concat partitions)" for ce
    unfolding computeIntegral_def
    by (rule quadrature_loop_zero) (use point that in simp)
  have "map (computeIntegral obj) (concat partitions) =
      map Inr (map (\<lambda>ce. Finite 0) (concat partitions))"
    using elem by simp
  from execute_all_sum [OF this] obtain vs where vs: "execute_all obj partitions = Inr vs"
    and sum: "gatherSum vs = Finite 0"
    by (auto simp: gatherSum_zeros)
  have "evaluate parameters partitions = Inr (getValue obj vs)"
    using evaluate_constructed [OF assms(1)] vs assms(2) by simp
  also have "getValue obj vs =
      Finite (K_factor obj *
                  (if t_stress obj \<and> \<not> treatAs2D (crack_front_definition obj)
                   then poissons_ratio obj *
                        getCrackFrontTangentialStrain (crack_front_definition obj)
                          (crack_front_point_index obj)
                   else 0))"
    unfolding assms(2) getValue_value sum [unfolded assms(2)] initialSetup_fields
    by simp
  finally show ?thesis
    using point elem by blast
qed

text \<open>
  The theorem at the example (no T-stress) with two processes of one zero-field
  element each: the result is 0.
\<close>

theorem zero_fields_integral_witness:
  "InteractionIntegral_constructor example_parameters = Inr example_object \<and>
   n_points zero_field_elem = 1 \<and>
   stress_prop zero_field_elem 0 = zero_tensor \<and>
   elastic_strain_prop zero_field_elem 0 = zero_tensor \<and>
   aux_stress zero_field_elem 0 = cmm_zero \<and>
   aux_grad_disp zero_field_elem 0 = cmm_zero \<and>
   normalization_divisor (crack_front_definition (initialSetup example_object))
     (crack_front_point_index (initialSetup example_object)) = 2 \<and>
   computeIntegral (initialSetup example_object) zero_field_elem = Inr (Finite 0) \<and>
   evaluate example_parameters [[zero_field_elem], [zero_field_elem]] = Inr (Finite 0)"
proof -
  let ?obj = "initialSetup example_object"
  have zero: "\<forall>ce \<in> set (concat [[zero_field_elem], [zero_field_elem]]). \<forall>qp < n_points ce.
      stress_prop ce qp = zero_tensor \<and> elastic_strain_prop ce qp = zero_tensor \<and>
      (\<forall>i < 3. \<forall>j < 3. aux_stress ce qp i j = 0 \<and> aux_grad_disp ce qp i j = 0)"
    by (simp add: zero_field_elem_fields)
  have norm: "normalization_divisor (crack_front_definition ?obj)
     (crack_front_point_index ?obj) = 2"
    by (simp add: normalization_divisor_def initialSetup_fields example_object_def
        example_front_def)
  then have nz: "normalization_divisor (crack_front_definition ?obj)
     (crack_front_point_index ?obj) \<noteq> 0"
    by simp
  have flags: "\<not> t_stress ?obj"
    by (simp add: initialSetup_fields example_object_def)
  from zero_fields_integral [OF constructor_example refl zero nz] flags
  have "computeIntegral ?obj zero_field_elem = Inr (Finite 0)"
    and "evaluate example_parameters [[zero_field_elem], [zero_field_elem]] = Inr (Finite 0)"
    by simp_all
  moreover have "n_points zero_field_elem = 1"
    "stress_prop zero_field_elem 0 = zero_tensor"
    "elastic_strain_prop zero_field_elem 0 = zero_tensor"
    "aux_stress zero_field_elem 0 = cmm_zero"
    "aux_grad_disp zero_field_elem 0 = cmm_zero"
    by (simp_all add: zero_field_elem_def thermal_elem_def cmm_zero_def)
  ultimately show ?thesis
    using constructor_example norm by (intro conjI)
qed

text \<open>
  Claim C9 as it is written promises the value zero without a condition. With the
  T-stress requested on the example front (not 2D, Poisson's ratio 3/10, tangential
  strain 1/2, factor 2) and all four fields zero, the element contributes 0 and the
  evaluation returns 3/10.
\<close>

theorem zero_fields_t_stress_counterexample:
  "InteractionIntegral_constructor t_stress_parameters = Inr t_stress_object \<and>
   n_points zero_field_elem = 1 \<and>
   stress_prop zero_field_elem 0 = zero_tensor \<and>
   elastic_strain_prop zero_field_elem 0 = zero_tensor \<and>
   aux_stress zero_field_elem 0 = cmm_zero \<and>
   aux_grad_disp zero_field_elem 0 = cmm_zero \<and>
   computeIntegral (initialSetup t_stress_object) zero_field_elem = Inr (Finite 0) \<and>
   evaluate t_stress_parameters [[zero_field_elem]] = Inr (Finite (3 / 10))"
proof -
  let ?obj = "initialSetup t_stress_object"
  have fields: "n_points zero_field_elem = 1"
    "stress_prop zero_field_elem 0 = zero_tensor"
    "elastic_strain_prop zero_field_elem 0 = zero_tensor"
    "aux_stress zero_field_elem 0 = cmm_zero"
    "aux_grad_disp zero_field_elem 0 = cmm_zero"
    by (simp_all add: zero_field_elem_def thermal_elem_def cmm_zero_def)
  have norm: "normalization_divisor (crack_front_definition ?obj)
     (crack_front_point_index ?obj) \<noteq> 0"
    by (simp add: normalization_divisor_def initialSetup_fields t_stress_object_def
        example_object_def example_front_def)
  have thermal: "current_instantaneous_thermal_expansion_coef ?obj =
      Some thermal_expansion_coef_prop"
    by (simp add: initialSetup_fields t_stress_object_def example_object_def)
  have point: "computeQpIntegral ?obj zero_field_elem q qp = Inr (Finite 0)" for q qp
    by (rule computeQpIntegral_zero_aux [of ?obj thermal_expansion_coef_prop])
      (simp_all add: thermal norm zero_field_elem_fields)
  have elem: "computeIntegral ?obj zero_field_elem = Inr (Finite 0)"
    unfolding computeIntegral_def by (rule quadrature_loop_zero) (rule point)
  have "evaluate t_stress_parameters [[zero_field_elem]] = Inr (getValue ?obj [Finite 0])"
    by (rule evaluate_constructed [OF constructor_t_stress]) (simp add: elem)
  also have "getValue ?obj [Finite 0] = Finite (3 / 10)"
    by (simp add: getValue_value t_stress_object_def example_object_def example_front_def)
  finally have "evaluate t_stress_parameters [[zero_field_elem]] = Inr (Finite (3 / 10))" .
  with constructor_t_stress fields elem show ?thesis
    by (intro conjI)
qed

end
